theory Spec2Isabelle
  imports Main "HOL-Library.Monad_Syntax"
begin

section \<open>The social-media post form: data\<close>

text \<open>
  The repository holds one React component, \<open>SocialMediaForm\<close>, in three near-identical
  variants. Their handlers (\<open>handleImageUpload\<close>, \<open>removeImage\<close>, \<open>onSubmit\<close>) and
  the \<open>formSchema\<close> are the same text in all three; one variant adds
  \<open>handleAIGenerate\<close>. The component state is modelled as a record that is passed to
  every handler and returned updated, together with the list of effects the handler
  performed (toasts, console output, network requests), in the order of the source.
\<close>

subsection \<open>Files\<close>

text \<open>A browser \<open>File\<close>: the handlers read only \<open>file.type\<close> and \<open>file.size\<close>.\<close>

record jsfile =
  fname :: string
  ftype :: string
  fsize :: nat

subsection \<open>Effects\<close>

datatype toast = Toast (title: string) (description: string) (destructive: bool)

datatype form_value = Text string | Blob jsfile

datatype http_body = Multipart "(string \<times> form_value) list" | Raw string

datatype request =
  Request (req_url: string) (req_method: string) (req_headers: "(string \<times> string) list")
    (req_body: http_body)

datatype effect = ShowToast toast | ConsoleError string | Fetch request

subsection \<open>JavaScript values\<close>

text \<open>
  The AI response is parsed with \<open>response.json()\<close> and is untyped (\<open>any\<close>), and
  \<open>form.setValue\<close> stores whatever it is given, so the caption and hashtags fields of
  the form hold JavaScript values, not only strings. Numbers are restricted to integers:
  the handlers only test a number for truthiness.
\<close>

datatype jsval =
  Undefined | Null | Bool bool | Num int | Str string
  | Arr "jsval list" | Obj "(string \<times> jsval) list"

text \<open>JavaScript truthiness (\<open>ToBoolean\<close>), as used by \<open>||\<close>.\<close>

fun truthy :: "jsval \<Rightarrow> bool" where
  "truthy Undefined = False"
| "truthy Null = False"
| "truthy (Bool b) = b"
| "truthy (Num n) = (n \<noteq> 0)"
| "truthy (Str s) = (s \<noteq> [])"
| "truthy (Arr _) = True"
| "truthy (Obj _) = True"

text \<open>\<open>a || b\<close>: the left operand when it is truthy, the right one otherwise.\<close>

definition js_or :: "jsval \<Rightarrow> jsval \<Rightarrow> jsval" where
  "js_or a b = (if truthy a then a else b)"

datatype js_exception = TypeError | RangeError | SyntaxError | Error string

text \<open>
  Property read \<open>data.k\<close> for the keys the component reads (\<open>caption\<close>, \<open>content\<close>,
  \<open>hashtags\<close>): reading a property of \<open>null\<close> or \<open>undefined\<close> throws a TypeError; an
  object yields the value stored under the key or \<open>undefined\<close>; no prototype of a
  primitive or of an array defines one of these three keys, so they yield \<open>undefined\<close>.
\<close>

fun get_prop :: "jsval \<Rightarrow> string \<Rightarrow> js_exception + jsval" where
  "get_prop Undefined k = Inl TypeError"
| "get_prop Null k = Inl TypeError"
| "get_prop (Obj kvs) k = Inr (case map_of kvs k of None \<Rightarrow> Undefined | Some v \<Rightarrow> v)"
| "get_prop _ k = Inr Undefined"

text \<open>
  A \<open>Date\<close> object: its time value is a number of milliseconds since the epoch, or NaN
  (an invalid date).
\<close>

datatype jsdate = Date int | InvalidDate

subsection \<open>The form and the component state\<close>

text \<open>
  The raw values held by react-hook-form. The title and the webhook URL are written by
  text inputs only, the platforms by the checkboxes, the date by the calendar
  (\<open>undefined\<close> until a day is selected); caption and hashtags are also written by
  \<open>handleAIGenerate\<close> with values taken from the response.
\<close>

record form_values =
  postTitle :: string
  caption :: jsval
  hashtags :: jsval
  platforms :: "string list"
  scheduledDate :: "jsdate option"
  webhookUrl :: string

text \<open>\<open>type FormData = z.infer<typeof formSchema>\<close>: what the schema hands to \<open>onSubmit\<close>.\<close>

record FormData =
  data_postTitle :: string
  data_caption :: string
  data_hashtags :: "string option"
  data_platforms :: "string list"
  data_scheduledDate :: jsdate
  data_webhookUrl :: string

text \<open>
  An issue reported for one field: the message the schema declares for the violated
  check, or one of the library's built-in issues where the schema declares none.
\<close>

datatype zod_issue = Message string | invalid_type | invalid_date

type_synonym field_errors = "(string \<times> zod_issue) list"

record component =
  form :: form_values
  errors :: field_errors
  uploadedImages :: "jsfile list"
  isSubmitting :: bool
  showAIModal :: bool
  aiPrompt :: string
  isGenerating :: bool

definition defaultValues :: form_values where
  "defaultValues = \<lparr> postTitle = [], caption = Str [], hashtags = Str [], platforms = [],
     scheduledDate = None, webhookUrl = [] \<rparr>"

text \<open>The state on mount: the \<open>useState\<close> initial values and the form's defaults.\<close>

definition initial :: component where
  "initial = \<lparr> form = defaultValues, errors = [], uploadedImages = [], isSubmitting = False,
     showAIModal = False, aiPrompt = [], isGenerating = False \<rparr>"

section \<open>Image attachment manager\<close>

definition validFile :: "jsfile \<Rightarrow> bool" where
  "validFile f \<longleftrightarrow>
     (ftype f = ''image/jpeg'' \<or> ftype f = ''image/png'') \<and> fsize f \<le> 10 * 1024 * 1024"

definition too_many_images :: toast where
  "too_many_images = Toast ''Too many images'' ''You can upload a maximum of 4 images.'' True"

text \<open>
  \<open>handleImageUpload\<close>: the selected files are filtered first; the count check uses the
  length of the filtered list; on rejection the handler returns before the state update.
\<close>

definition handleImageUpload :: "component \<Rightarrow> jsfile list \<Rightarrow> component \<times> effect list" where
  "handleImageUpload st files =
     (let validFiles = filter validFile files in
      if length validFiles + length (uploadedImages st) > 4
      then (st, [ShowToast too_many_images])
      else (st\<lparr>uploadedImages := uploadedImages st @ validFiles\<rparr>, []))"

text \<open>\<open>removeImage\<close>: \<open>prev.filter((_, i) => i !== index)\<close>.\<close>

definition removeImage :: "component \<Rightarrow> nat \<Rightarrow> component" where
  "removeImage st index =
     st\<lparr>uploadedImages :=
          map snd (filter (\<lambda>(i, _). i \<noteq> index) (enumerate 0 (uploadedImages st)))\<rparr>"

section \<open>Form state manager: validation\<close>

text \<open>
  \<open>formSchema\<close> is a zod object schema. Each field's checks are listed in the order of
  the source; a check that fails adds its issue, and checking continues. The URL test of
  \<open>z.string().url\<close> is the library's and the platform's; it is a parameter \<open>isUrl\<close> of
  the model.
\<close>

definition string_checks :: "nat \<Rightarrow> string \<Rightarrow> nat \<Rightarrow> string \<Rightarrow> string \<Rightarrow> zod_issue list" where
  "string_checks lo lo_msg hi hi_msg s =
     (if length s < lo then [Message lo_msg] else []) @
     (if length s > hi then [Message hi_msg] else [])"

definition check_postTitle :: "string \<Rightarrow> zod_issue list" where
  "check_postTitle s =
     string_checks 1 ''Post title is required'' 100 ''Post title must be under 100 characters'' s"

definition check_caption :: "jsval \<Rightarrow> zod_issue list" where
  "check_caption v =
     (case v of
        Str s \<Rightarrow> string_checks 1 ''Caption is required'' 2200
                   ''Caption must be under 2200 characters'' s
      | _ \<Rightarrow> [invalid_type])"

definition check_hashtags :: "jsval \<Rightarrow> zod_issue list" where
  "check_hashtags v = (case v of Undefined \<Rightarrow> [] | Str s \<Rightarrow> [] | _ \<Rightarrow> [invalid_type])"

definition check_platforms :: "string list \<Rightarrow> zod_issue list" where
  "check_platforms ps =
     (if length ps < 1 then [Message ''Select at least one platform''] else [])"

text \<open>
  The time value of a date, when it has one. A \<open>Date\<close> never holds a time value beyond
  8.64e15 ms from the epoch (\<open>TimeClip\<close> turns it into NaN).
\<close>

definition time_value :: "jsdate \<Rightarrow> int option" where
  "time_value d =
     (case d of
        InvalidDate \<Rightarrow> None
      | Date t \<Rightarrow> if \<bar>t\<bar> \<le> 8640000000000000 then Some t else None)"

definition check_scheduledDate :: "jsdate option \<Rightarrow> zod_issue list" where
  "check_scheduledDate d =
     (case d of
        None \<Rightarrow> [Message ''Please select a date and time for posting'']
      | Some x \<Rightarrow> (case time_value x of None \<Rightarrow> [invalid_date] | Some t \<Rightarrow> []))"

definition check_webhookUrl :: "(string \<Rightarrow> bool) \<Rightarrow> string \<Rightarrow> zod_issue list" where
  "check_webhookUrl isUrl s =
     (if isUrl s then [] else [Message ''Please enter a valid webhook URL''])"

text \<open>
  \<open>zodResolver\<close> turns the issues into the form's error object: one entry per failing
  field, holding the first issue of that field.
\<close>

definition field_error :: "string \<Rightarrow> zod_issue list \<Rightarrow> field_errors" where
  "field_error k issues = (case issues of [] \<Rightarrow> [] | i # _ \<Rightarrow> [(k, i)])"

definition schema_errors :: "(string \<Rightarrow> bool) \<Rightarrow> form_values \<Rightarrow> field_errors" where
  "schema_errors isUrl v =
     field_error ''postTitle'' (check_postTitle (postTitle v)) @
     field_error ''caption'' (check_caption (caption v)) @
     field_error ''hashtags'' (check_hashtags (hashtags v)) @
     field_error ''platforms'' (check_platforms (platforms v)) @
     field_error ''scheduledDate'' (check_scheduledDate (scheduledDate v)) @
     field_error ''webhookUrl'' (check_webhookUrl isUrl (webhookUrl v))"

text \<open>
  The parsed output. It is produced only when no check failed, and then the caption is a
  string, the hashtags are a string or \<open>undefined\<close>, and the date is present; the other
  branches below are never taken.
\<close>

definition schema_output :: "form_values \<Rightarrow> FormData" where
  "schema_output v =
     \<lparr> data_postTitle = postTitle v,
       data_caption = (case caption v of Str s \<Rightarrow> s | _ \<Rightarrow> []),
       data_hashtags = (case hashtags v of Str s \<Rightarrow> Some s | _ \<Rightarrow> None),
       data_platforms = platforms v,
       data_scheduledDate = (case scheduledDate v of Some d \<Rightarrow> d | None \<Rightarrow> InvalidDate),
       data_webhookUrl = webhookUrl v \<rparr>"

definition formSchema :: "(string \<Rightarrow> bool) \<Rightarrow> form_values \<Rightarrow> field_errors + FormData" where
  "formSchema isUrl v =
     (case schema_errors isUrl v of [] \<Rightarrow> Inr (schema_output v) | e # es \<Rightarrow> Inl (e # es))"

section \<open>Submission dispatcher\<close>

subsection \<open>Serialisation\<close>

definition digit_char :: "nat \<Rightarrow> char" where
  "digit_char n = ''0123456789abcdef'' ! (n mod 16)"

text \<open>\<open>pad k n\<close>: the last \<open>k\<close> decimal digits of \<open>n\<close>, zero-padded.\<close>

fun pad :: "nat \<Rightarrow> nat \<Rightarrow> string" where
  "pad 0 n = []"
| "pad (Suc k) n = pad k (n div 10) @ [digit_char (n mod 10)]"

text \<open>Number to string, for an array index.\<close>

fun show_nat :: "nat \<Rightarrow> string" where
  "show_nat n = (if n < 10 then [digit_char n] else show_nat (n div 10) @ [digit_char (n mod 10)])"

declare show_nat.simps [simp del]

text \<open>
  \<open>JSON.stringify\<close> of a string (\<open>QuoteJSONString\<close>) and of an array of strings.
  \<open>CHR 0x22\<close> is the double quote, \<open>CHR 0x5C\<close> the backslash.
\<close>

definition json_escape_char :: "char \<Rightarrow> string" where
  "json_escape_char c =
     (if c = CHR 0x22 then [CHR 0x5C, CHR 0x22]
      else if c = CHR 0x5C then [CHR 0x5C, CHR 0x5C]
      else if c = CHR 0x08 then [CHR 0x5C, CHR ''b'']
      else if c = CHR 0x09 then [CHR 0x5C, CHR ''t'']
      else if c = CHR 0x0A then [CHR 0x5C, CHR ''n'']
      else if c = CHR 0x0C then [CHR 0x5C, CHR ''f'']
      else if c = CHR 0x0D then [CHR 0x5C, CHR ''r'']
      else if (of_char c :: nat) < 32
        then [CHR 0x5C] @ ''u00'' @ [digit_char (of_char c div 16), digit_char (of_char c mod 16)]
      else [c])"

definition json_quote :: "string \<Rightarrow> string" where
  "json_quote s = [CHR 0x22] @ concat (map json_escape_char s) @ [CHR 0x22]"

fun join_comma :: "string list \<Rightarrow> string" where
  "join_comma [] = []"
| "join_comma [x] = x"
| "join_comma (x # y # ys) = x @ '','' @ join_comma (y # ys)"

definition JSON_stringify :: "string list \<Rightarrow> string" where
  "JSON_stringify xs = ''['' @ join_comma (map json_quote xs) @ '']''"

text \<open>
  \<open>Date.prototype.toISOString\<close>, after the ECMAScript definitions of the time-value
  functions. \<open>DayFromYear y\<close> is the day number of the first day of year \<open>y\<close>;
  \<open>YearFromTime\<close> is the largest year whose first day is not after the given day, and
  is found here from an estimate that is off by at most one; \<open>MonthFromTime\<close> and
  \<open>DateFromTime\<close> go by the day within the year, the boundaries shifted by one in a
  leap year.
\<close>

definition DayFromYear :: "int \<Rightarrow> int" where
  "DayFromYear y =
     365 * (y - 1970) + (y - 1969) div 4 - (y - 1901) div 100 + (y - 1601) div 400"

definition DaysInYear :: "int \<Rightarrow> int" where
  "DaysInYear y =
     (if y mod 4 \<noteq> 0 then 365 else if y mod 100 \<noteq> 0 then 366
      else if y mod 400 \<noteq> 0 then 365 else 366)"

definition YearFromDay :: "int \<Rightarrow> int" where
  "YearFromDay day =
     (let y0 = 1970 + (400 * day) div 146097 in
      if day < DayFromYear y0 then y0 - 1
      else if DayFromYear (y0 + 1) \<le> day then y0 + 1
      else y0)"

text \<open>
  The day within the year on which month \<open>m\<close> (counted from 0) starts, and the month a
  day within the year falls in; \<open>leap\<close> is 1 in a leap year and 0 otherwise.
\<close>

definition MonthStart :: "int \<Rightarrow> nat \<Rightarrow> int" where
  "MonthStart leap m =
     [0, 31, 59 + leap, 90 + leap, 120 + leap, 151 + leap, 181 + leap, 212 + leap,
      243 + leap, 273 + leap, 304 + leap, 334 + leap] ! m"

definition MonthFromDay :: "int \<Rightarrow> int \<Rightarrow> nat" where
  "MonthFromDay leap doy =
     (if doy < 31 then 0
      else if doy < 59 + leap then 1
      else if doy < 90 + leap then 2
      else if doy < 120 + leap then 3
      else if doy < 151 + leap then 4
      else if doy < 181 + leap then 5
      else if doy < 212 + leap then 6
      else if doy < 243 + leap then 7
      else if doy < 273 + leap then 8
      else if doy < 304 + leap then 9
      else if doy < 334 + leap then 10
      else 11)"

text \<open>Year, month (1 to 12) and day of the month of a day number.\<close>

definition date_fields :: "int \<Rightarrow> int \<times> nat \<times> nat" where
  "date_fields day =
     (let y = YearFromDay day;
          leap = DaysInYear y - 365;
          doy = day - DayFromYear y;
          m = MonthFromDay leap doy
      in (y, m + 1, nat (doy - MonthStart leap m + 1)))"

definition year_string :: "int \<Rightarrow> string" where
  "year_string y =
     (if 0 \<le> y \<and> y \<le> 9999 then pad 4 (nat y)
      else if y < 0 then ''-'' @ pad 6 (nat (- y))
      else ''+'' @ pad 6 (nat y))"

definition toISOString :: "jsdate \<Rightarrow> js_exception + string" where
  "toISOString d =
     (case time_value d of
        None \<Rightarrow> Inl RangeError
      | Some t \<Rightarrow>
          (let ms = nat (t mod 86400000)
           in case date_fields (t div 86400000) of
                (y, m, dd) \<Rightarrow>
                  Inr (year_string y @ ''-'' @ pad 2 m @ ''-'' @ pad 2 dd @ ''T'' @
                       pad 2 (ms div 3600000) @ '':'' @ pad 2 (ms div 60000 mod 60) @ '':'' @
                       pad 2 (ms div 1000 mod 60) @ ''.'' @ pad 3 (ms mod 1000) @ ''Z'')))"

text \<open>
  The multipart body built by \<open>onSubmit\<close>: five text fields in the order of the
  \<open>append\<close> calls, then one entry per uploaded image. Only \<open>toISOString\<close> can throw.
\<close>

definition image_entries :: "jsfile list \<Rightarrow> (string \<times> form_value) list" where
  "image_entries images =
     map (\<lambda>(index, image). (''image_'' @ show_nat index, Blob image)) (enumerate 0 images)"

definition build_formData ::
  "FormData \<Rightarrow> jsfile list \<Rightarrow> js_exception + (string \<times> form_value) list" where
  "build_formData data images =
     (case toISOString (data_scheduledDate data) of
        Inl e \<Rightarrow> Inl e
      | Inr stamp \<Rightarrow>
          Inr ([(''postTitle'', Text (data_postTitle data)),
                (''caption'', Text (data_caption data)),
                (''hashtags'', Text (case data_hashtags data of None \<Rightarrow> [] | Some h \<Rightarrow> h)),
                (''platforms'', Text (JSON_stringify (data_platforms data))),
                (''scheduledDate'', Text stamp)] @ image_entries images))"

subsection \<open>onSubmit\<close>

text \<open>
  What the awaited \<open>fetch\<close> comes back with: a rejected promise (network failure,
  unusable URL) or a response with its status code. \<open>response.ok\<close> is a status in
  200..299.
\<close>

datatype fetch_result = Rejected | Response nat

definition response_ok :: "nat \<Rightarrow> bool" where
  "response_ok status \<longleftrightarrow> 200 \<le> status \<and> status \<le> 299"

definition submit_success_toast :: toast where
  "submit_success_toast =
     Toast ''Content submitted successfully!''
       ''Your social media post has been queued for automation.'' False"

definition submit_failure_toast :: toast where
  "submit_failure_toast =
     Toast ''Submission failed'' ''Please check your webhook URL and try again.'' True"

text \<open>The \<open>catch\<close> block and the \<open>finally\<close> block of \<open>onSubmit\<close>.\<close>

definition onSubmit_catch :: "effect list" where
  "onSubmit_catch = [ConsoleError ''Submission error:'', ShowToast submit_failure_toast]"

definition onSubmit_finally :: "component \<Rightarrow> component" where
  "onSubmit_finally st = st\<lparr>isSubmitting := False\<rparr>"

text \<open>\<open>form.reset()\<close>: the values go back to \<open>defaultValues\<close>, the errors are cleared.\<close>

definition form_reset :: "component \<Rightarrow> component" where
  "form_reset st = st\<lparr>form := defaultValues, errors := []\<rparr>"

text \<open>
  \<open>onSubmit\<close> runs in two parts, separated by \<open>await fetch\<close>. The first part sets the
  busy flag and builds the body; if that throws, the catch and finally blocks run at once
  and no request is made; otherwise the request is issued and the handler is suspended.
\<close>

datatype submission = Finished component "effect list" | Awaiting component request

definition onSubmit_dispatch :: "component \<Rightarrow> FormData \<Rightarrow> submission" where
  "onSubmit_dispatch st data =
     (let st1 = st\<lparr>isSubmitting := True\<rparr> in
      case build_formData data (uploadedImages st) of
        Inl e \<Rightarrow> Finished (onSubmit_finally st1) onSubmit_catch
      | Inr formData \<Rightarrow>
          Awaiting st1 (Request (data_webhookUrl data) ''POST'' [] (Multipart formData)))"

text \<open>The second part: the continuation once the fetch has settled.\<close>

definition onSubmit_settle :: "component \<Rightarrow> fetch_result \<Rightarrow> component \<times> effect list" where
  "onSubmit_settle st r =
     (case r of
        Rejected \<Rightarrow> (onSubmit_finally st, onSubmit_catch)
      | Response status \<Rightarrow>
          if response_ok status
          then (onSubmit_finally ((form_reset st)\<lparr>uploadedImages := []\<rparr>),
                [ShowToast submit_success_toast])
          else (onSubmit_finally st, onSubmit_catch))"

text \<open>One whole run of \<open>onSubmit\<close>, the fetch settling with \<open>r\<close>.\<close>

definition onSubmit :: "component \<Rightarrow> FormData \<Rightarrow> fetch_result \<Rightarrow> component \<times> effect list" where
  "onSubmit st data r =
     (case onSubmit_dispatch st data of
        Finished st' effs \<Rightarrow> (st', effs)
      | Awaiting st' req \<Rightarrow>
          (case onSubmit_settle st' r of (st'', effs) \<Rightarrow> (st'', Fetch req # effs)))"

text \<open>
  \<open>form.handleSubmit(onSubmit)\<close>: the resolver validates the current values; with
  errors, they are stored and \<open>onSubmit\<close> is not called; without, the errors are cleared
  and \<open>onSubmit\<close> receives the parsed values.
\<close>

definition handleSubmit_dispatch :: "(string \<Rightarrow> bool) \<Rightarrow> component \<Rightarrow> submission" where
  "handleSubmit_dispatch isUrl st =
     (case formSchema isUrl (form st) of
        Inl errs \<Rightarrow> Finished (st\<lparr>errors := errs\<rparr>) []
      | Inr data \<Rightarrow> onSubmit_dispatch (st\<lparr>errors := []\<rparr>) data)"

definition handleSubmit ::
  "(string \<Rightarrow> bool) \<Rightarrow> component \<Rightarrow> fetch_result \<Rightarrow> component \<times> effect list" where
  "handleSubmit isUrl st r =
     (case formSchema isUrl (form st) of
        Inl errs \<Rightarrow> (st\<lparr>errors := errs\<rparr>, [])
      | Inr data \<Rightarrow> onSubmit (st\<lparr>errors := []\<rparr>) data r)"

section \<open>AI-assist dispatcher\<close>

text \<open>
  \<open>String.prototype.trim\<close> strips white space and line terminators. A character of
  this model is a code unit below 256; among these, the white space and line terminator
  code points of ECMAScript are tab, line feed, vertical tab, form feed, carriage return,
  space and the no-break space U+00A0.
\<close>

definition is_space :: "char \<Rightarrow> bool" where
  "is_space c \<longleftrightarrow>
     c \<in> set [CHR 0x09, CHR 0x0A, CHR 0x0B, CHR 0x0C, CHR 0x0D, CHR '' '', CHR 0xA0]"

definition trim :: "string \<Rightarrow> string" where
  "trim s = rev (dropWhile is_space (rev (dropWhile is_space s)))"

text \<open>
  What the AI fetch comes back with: a rejected promise, or a response with its status
  and the value \<open>response.json()\<close> parses from its body (\<open>None\<close> when the body is not
  JSON and the parse throws).
\<close>

datatype ai_result = AiRejected | AiResponse nat "jsval option"

definition ai_endpoint :: string where
  "ai_endpoint =
     ''https://n8n-rksa.onrender.com/webhook/d5799868-0383-44fc-ba56-17dc7399bc69/chat''"

definition prompt_required_toast :: toast where
  "prompt_required_toast =
     Toast ''Please enter a prompt'' ''Describe what your post is about to generate content.''
       True"

definition ai_success_toast :: toast where
  "ai_success_toast =
     Toast ''Content generated successfully!''
       ''Your caption and hashtags have been populated.'' False"

definition ai_failure_toast :: toast where
  "ai_failure_toast =
     Toast ''Generation failed'' ''Please try again or enter content manually.'' True"

definition ai_request :: "string \<Rightarrow> request" where
  "ai_request prompt =
     Request ai_endpoint ''POST'' [(''Content-Type'', ''application/json'')]
       (Raw (''{'' @ json_quote ''prompt'' @ '':'' @ json_quote prompt @ ''}''))"

text \<open>
  The \<open>try\<close> block after the fetch: the status check, the JSON parse, the two
  \<open>form.setValue\<close> calls (which store the value and do not validate), the toast, and the
  two state updates. An exception leaves the block with the state as it was.
\<close>

definition ai_try :: "component \<Rightarrow> ai_result \<Rightarrow> js_exception + component \<times> effect list" where
  "ai_try st r =
     (case r of
        AiRejected \<Rightarrow> Inl TypeError
      | AiResponse status parsed \<Rightarrow>
          if \<not> response_ok status then Inl (Error ''Failed to generate content'')
          else (case parsed of
                  None \<Rightarrow> Inl SyntaxError
                | Some data \<Rightarrow>
                    (case get_prop data ''caption'' of
                       Inl e \<Rightarrow> Inl e
                     | Inr cap \<Rightarrow>
                    (case get_prop data ''content'' of
                       Inl e \<Rightarrow> Inl e
                     | Inr content \<Rightarrow>
                    (case get_prop data ''hashtags'' of
                       Inl e \<Rightarrow> Inl e
                     | Inr tags \<Rightarrow>
                         Inr (st\<lparr>form := (form st)
                                   \<lparr>caption := js_or (js_or cap content) (Str []),
                                    hashtags := js_or tags (Str [])\<rparr>,
                                 showAIModal := False, aiPrompt := []\<rparr>,
                              [ShowToast ai_success_toast]))))))"

definition handleAIGenerate :: "component \<Rightarrow> ai_result \<Rightarrow> component \<times> effect list" where
  "handleAIGenerate st r =
     (if trim (aiPrompt st) = [] then (st, [ShowToast prompt_required_toast])
      else
        (let st1 = st\<lparr>isGenerating := True\<rparr>; req = Fetch (ai_request (aiPrompt st)) in
         case ai_try st1 r of
           Inl e \<Rightarrow>
             (st1\<lparr>isGenerating := False\<rparr>,
              [req, ConsoleError ''AI Generation error:'', ShowToast ai_failure_toast])
         | Inr (st2, effs) \<Rightarrow> (st2\<lparr>isGenerating := False\<rparr>, req # effs)))"

section \<open>The component as a transition system\<close>

text \<open>
  The page: the component state, the submit button as the last render left it, and the
  submission requests that were issued and have not settled yet. Events are the user's
  actions on the rendered controls, a render, and the settling of a request.

  The only guard on submission is the button, rendered with \<open>disabled={isSubmitting}\<close>;
  \<open>onSubmit\<close> itself does not look at the flag. The flag is set inside \<open>onSubmit\<close>,
  which runs after the awaited validation of \<open>form.handleSubmit\<close>, and cleared after
  the awaited fetch, so either change reaches the button only with a later render:
  \<open>submit_disabled\<close> is the flag as of the last \<open>Rendered\<close> event, and a submit event
  is delivered whenever the button is not shown disabled. Pending requests settle in any
  order.

  The other controls are driven by state that their own synchronous handlers update, and
  the component is rendered again before the next event: the attachment handlers see
  the current list. The generate button sits in the dialog (\<open>open={showAIModal}\<close>) with
  \<open>disabled={isGenerating || !aiPrompt.trim()}\<close>; an AI generation is taken as one
  event, request and answer together, and touches neither the images nor the
  submission. Edits of the form fields go through react-hook-form, which stores the new
  values and may revalidate: \<open>FieldInput\<close> allows any new values and errors.
\<close>

record page =
  comp :: component
  submit_disabled :: bool
  in_flight :: "request list"

datatype event =
  FilesSelected "jsfile list"
  | RemoveClicked nat
  | SubmitPressed
  | Rendered
  | FetchSettled nat fetch_result
  | FieldInput form_values field_errors
  | ModalOpenChange bool
  | PromptInput string
  | GenerateClicked ai_result

definition start :: page where
  "start = \<lparr> comp = initial, submit_disabled = False, in_flight = [] \<rparr>"

fun react :: "(string \<Rightarrow> bool) \<Rightarrow> page \<Rightarrow> event \<Rightarrow> page" where
  "react isUrl p (FilesSelected files) = p\<lparr>comp := fst (handleImageUpload (comp p) files)\<rparr>"
| "react isUrl p (RemoveClicked index) = p\<lparr>comp := removeImage (comp p) index\<rparr>"
| "react isUrl p SubmitPressed =
     (if submit_disabled p then p
      else (case handleSubmit_dispatch isUrl (comp p) of
              Finished st effs \<Rightarrow> p\<lparr>comp := st\<rparr>
            | Awaiting st req \<Rightarrow> p\<lparr>comp := st, in_flight := in_flight p @ [req]\<rparr>))"
| "react isUrl p Rendered = p\<lparr>submit_disabled := isSubmitting (comp p)\<rparr>"
| "react isUrl p (FetchSettled i r) =
     (if i < length (in_flight p)
      then p\<lparr>comp := fst (onSubmit_settle (comp p) r),
             in_flight := take i (in_flight p) @ drop (Suc i) (in_flight p)\<rparr>
      else p)"
| "react isUrl p (FieldInput v errs) = p\<lparr>comp := (comp p)\<lparr>form := v, errors := errs\<rparr>\<rparr>"
| "react isUrl p (ModalOpenChange b) = p\<lparr>comp := (comp p)\<lparr>showAIModal := b\<rparr>\<rparr>"
| "react isUrl p (PromptInput s) = p\<lparr>comp := (comp p)\<lparr>aiPrompt := s\<rparr>\<rparr>"
| "react isUrl p (GenerateClicked r) =
     (if showAIModal (comp p) \<and> \<not> isGenerating (comp p) \<and> trim (aiPrompt (comp p)) \<noteq> []
      then p\<lparr>comp := fst (handleAIGenerate (comp p) r)\<rparr>
      else p)"

definition run :: "(string \<Rightarrow> bool) \<Rightarrow> event list \<Rightarrow> page" where
  "run isUrl evs = foldl (react isUrl) start evs"


section \<open>The validation rules as the specification lists them\<close>

text \<open>
  The rules of the specification's data model, stated on the raw form values, each with
  the field it belongs to. They are compared with \<open>formSchema\<close> below.
\<close>

datatype rule =
  title_required | title_at_most_100 | caption_required | caption_at_most_2200
  | platform_selected | date_present | date_valid | url_present | url_well_formed

fun rule_field :: "rule \<Rightarrow> string" where
  "rule_field title_required = ''postTitle''"
| "rule_field title_at_most_100 = ''postTitle''"
| "rule_field caption_required = ''caption''"
| "rule_field caption_at_most_2200 = ''caption''"
| "rule_field platform_selected = ''platforms''"
| "rule_field date_present = ''scheduledDate''"
| "rule_field date_valid = ''scheduledDate''"
| "rule_field url_present = ''webhookUrl''"
| "rule_field url_well_formed = ''webhookUrl''"

fun violated :: "(string \<Rightarrow> bool) \<Rightarrow> rule \<Rightarrow> form_values \<Rightarrow> bool" where
  "violated isUrl title_required v = (postTitle v = [])"
| "violated isUrl title_at_most_100 v = (length (postTitle v) > 100)"
| "violated isUrl caption_required v = (case caption v of Str s \<Rightarrow> s = [] | _ \<Rightarrow> True)"
| "violated isUrl caption_at_most_2200 v =
     (case caption v of Str s \<Rightarrow> length s > 2200 | _ \<Rightarrow> False)"
| "violated isUrl platform_selected v = (platforms v = [])"
| "violated isUrl date_present v = (scheduledDate v = None)"
| "violated isUrl date_valid v =
     (case scheduledDate v of None \<Rightarrow> False | Some d \<Rightarrow> time_value d = None)"
| "violated isUrl url_present v = (webhookUrl v = [])"
| "violated isUrl url_well_formed v = (\<not> isUrl (webhookUrl v))"

section \<open>Reading the encoded fields back\<close>

text \<open>
  The specification calls the platforms field a JSON-encoded array of strings, the date
  field an ISO-8601 string and the image keys positional. These are the readers the
  encodings are compared with: a reader of decimal numerals, a reader of the JSON text
  of an array of strings, and a reader of the ISO-8601 date-time format
  \<open>YYYY-MM-DDTHH:mm:ss.sssZ\<close> (with a signed six-digit year as its expanded form) that
  accepts only dates of the calendar and returns the time value by \<open>MakeDay\<close> and
  \<open>MakeTime\<close> of ECMAScript.
\<close>

definition is_digit :: "char \<Rightarrow> bool" where
  "is_digit c \<longleftrightarrow> 48 \<le> (of_char c :: nat) \<and> (of_char c :: nat) \<le> 57"

definition dec_value :: "string \<Rightarrow> nat" where
  "dec_value cs = foldl (\<lambda>a c. 10 * a + (of_char c - 48)) 0 cs"

definition read_decimal :: "string \<Rightarrow> nat option" where
  "read_decimal cs = (if cs \<noteq> [] \<and> list_all is_digit cs then Some (dec_value cs) else None)"

definition take_number :: "nat \<Rightarrow> string \<Rightarrow> (nat \<times> string) option" where
  "take_number k cs =
     (if k \<le> length cs \<and> list_all is_digit (take k cs)
      then Some (dec_value (take k cs), drop k cs) else None)"

definition expect :: "char \<Rightarrow> string \<Rightarrow> string option" where
  "expect c cs = (case cs of [] \<Rightarrow> None | x # rest \<Rightarrow> if x = c then Some rest else None)"

definition parse_year :: "string \<Rightarrow> (int \<times> string) option" where
  "parse_year cs =
     (case cs of
        [] \<Rightarrow> None
      | c # rest \<Rightarrow>
          if c = CHR ''+'' then
            (case take_number 6 rest of None \<Rightarrow> None | Some (n, r) \<Rightarrow> Some (int n, r))
          else if c = CHR ''-'' then
            (case take_number 6 rest of
               None \<Rightarrow> None
             | Some (n, r) \<Rightarrow> if n = 0 then None else Some (- int n, r))
          else
            (case take_number 4 cs of None \<Rightarrow> None | Some (n, r) \<Rightarrow> Some (int n, r)))"

definition DaysInMonth :: "int \<Rightarrow> nat \<Rightarrow> int" where
  "DaysInMonth leap m = [31, 28 + leap, 31, 30, 31, 30, 31, 31, 30, 31, 30, 31] ! m"

definition MakeDay :: "int \<Rightarrow> nat \<Rightarrow> nat \<Rightarrow> int" where
  "MakeDay y m d = DayFromYear y + MonthStart (DaysInYear y - 365) (m - 1) + int d - 1"

definition valid_date :: "int \<Rightarrow> nat \<Rightarrow> nat \<Rightarrow> bool" where
  "valid_date y m d \<longleftrightarrow>
     1 \<le> m \<and> m \<le> 12 \<and> 1 \<le> d \<and> int d \<le> DaysInMonth (DaysInYear y - 365) (m - 1)"

definition parse_iso :: "string \<Rightarrow> int option" where
  "parse_iso s0 =
     do {
       (y, s1) \<leftarrow> parse_year s0;
       s2 \<leftarrow> expect CHR ''-'' s1;
       (m, s3) \<leftarrow> take_number 2 s2;
       s4 \<leftarrow> expect CHR ''-'' s3;
       (d, s5) \<leftarrow> take_number 2 s4;
       s6 \<leftarrow> expect CHR ''T'' s5;
       (h, s7) \<leftarrow> take_number 2 s6;
       s8 \<leftarrow> expect CHR '':'' s7;
       (mi, s9) \<leftarrow> take_number 2 s8;
       s10 \<leftarrow> expect CHR '':'' s9;
       (sec, s11) \<leftarrow> take_number 2 s10;
       s12 \<leftarrow> expect CHR ''.'' s11;
       (ms, s13) \<leftarrow> take_number 3 s12;
       s14 \<leftarrow> expect CHR ''Z'' s13;
       if s14 = [] \<and> valid_date y m d \<and> h < 24 \<and> mi < 60 \<and> sec < 60
       then Some (MakeDay y m d * 86400000 +
                  int (h * 3600000 + mi * 60000 + sec * 1000 + ms))
       else None
     }"

text \<open>
  JSON text of an array of strings: \<open>[\<close>, the strings in double quotes separated by
  commas, \<open>]\<close>. Inside a string a backslash starts an escape (one of the two-character
  escapes, or \<open>u\<close> and four hexadecimal digits, here for a code unit below 256) and a
  raw control character is not allowed.
\<close>

definition hex_val :: "char \<Rightarrow> nat option" where
  "hex_val c =
     (let n = (of_char c :: nat) in
      if 48 \<le> n \<and> n \<le> 57 then Some (n - 48)
      else if 97 \<le> n \<and> n \<le> 102 then Some (n - 87)
      else if 65 \<le> n \<and> n \<le> 70 then Some (n - 55)
      else None)"

definition simple_escape :: "char \<Rightarrow> char option" where
  "simple_escape e =
     (if e = CHR 0x22 then Some (CHR 0x22)
      else if e = CHR 0x5C then Some (CHR 0x5C)
      else if e = CHR ''/'' then Some (CHR ''/'')
      else if e = CHR ''b'' then Some (CHR 0x08)
      else if e = CHR ''f'' then Some (CHR 0x0C)
      else if e = CHR ''n'' then Some (CHR 0x0A)
      else if e = CHR ''r'' then Some (CHR 0x0D)
      else if e = CHR ''t'' then Some (CHR 0x09)
      else None)"

definition with_char :: "char \<Rightarrow> (string \<times> string) option \<Rightarrow> (string \<times> string) option" where
  "with_char c r = (case r of None \<Rightarrow> None | Some (s, rest) \<Rightarrow> Some (c # s, rest))"

text \<open>
  The characters of a string up to its closing quote: the string read, and the text
  after the quote.
\<close>

fun json_string_body :: "string \<Rightarrow> (string \<times> string) option" where
  "json_string_body [] = None"
| "json_string_body (c # cs) =
     (if c = CHR 0x22 then Some ([], cs)
      else if c = CHR 0x5C then
        (case cs of
           [] \<Rightarrow> None
         | e # es \<Rightarrow>
             if e = CHR ''u'' then
               (case es of
                  a # b # x # y # rest \<Rightarrow>
                    if a = CHR ''0'' \<and> b = CHR ''0'' then
                      (case (hex_val x, hex_val y) of
                         (Some h, Some l) \<Rightarrow>
                           with_char (char_of (16 * h + l)) (json_string_body rest)
                       | _ \<Rightarrow> None)
                    else None
                | _ \<Rightarrow> None)
             else
               (case simple_escape e of
                  None \<Rightarrow> None
                | Some ch \<Rightarrow> with_char ch (json_string_body es)))
      else if (of_char c :: nat) < 32 then None
      else with_char c (json_string_body cs))"

text \<open>
  The elements after the opening bracket; the first argument bounds the number of
  elements read and is given the length of the text.
\<close>

fun json_elements :: "nat \<Rightarrow> string \<Rightarrow> string list option" where
  "json_elements 0 cs = None"
| "json_elements (Suc n) cs =
     (case cs of
        [] \<Rightarrow> None
      | q # body \<Rightarrow>
          if q \<noteq> CHR 0x22 then None
          else
            (case json_string_body body of
               None \<Rightarrow> None
             | Some (x, rest) \<Rightarrow>
                 (case rest of
                    [] \<Rightarrow> None
                  | c # tail \<Rightarrow>
                      if c = CHR '']'' then (if tail = [] then Some [x] else None)
                      else if c = CHR '','' then map_option ((#) x) (json_elements n tail)
                      else None)))"

definition json_parse_strings :: "string \<Rightarrow> string list option" where
  "json_parse_strings cs =
     (case cs of
        [] \<Rightarrow> None
      | c # rest \<Rightarrow>
          if c \<noteq> CHR ''['' then None
          else if rest = '']'' then Some []
          else json_elements (length rest) rest)"

section \<open>Invariants and sample data\<close>

text \<open>The invariant of the attachment sequence.\<close>

definition attachments_ok :: "jsfile list \<Rightarrow> bool" where
  "attachments_ok images \<longleftrightarrow> length images \<le> 4 \<and> (\<forall>f \<in> set images. validFile f)"


text \<open>
  The scenario of the specification: a complete draft scheduled for
  2025-01-01T00:00:00Z, one valid image, and a stand-in for the URL test.
\<close>

definition sample_draft :: form_values where
  "sample_draft =
     \<lparr> postTitle = ''Launch'', caption = Str ''We shipped!'', hashtags = Str ''#launch'',
       platforms = [''facebook''], scheduledDate = Some (Date 1735689600000),
       webhookUrl = ''https://example.com/hook'' \<rparr>"

definition sample_data :: FormData where
  "sample_data =
     \<lparr> data_postTitle = ''Launch'', data_caption = ''We shipped!'',
       data_hashtags = Some ''#launch'', data_platforms = [''facebook''],
       data_scheduledDate = Date 1735689600000,
       data_webhookUrl = ''https://example.com/hook'' \<rparr>"

definition sample_image :: jsfile where
  "sample_image = \<lparr> fname = ''photo.jpg'', ftype = ''image/jpeg'', fsize = 2048 \<rparr>"

definition sample_isUrl :: "string \<Rightarrow> bool" where
  "sample_isUrl s \<longleftrightarrow> take 8 s = ''https://''"

definition sample_request :: request where
  "sample_request =
     Request ''https://example.com/hook'' ''POST'' []
       (Multipart
          [(''postTitle'', Text ''Launch''),
           (''caption'', Text ''We shipped!''),
           (''hashtags'', Text ''#launch''),
           (''platforms'', Text ([CHR ''['', CHR 0x22] @ ''facebook'' @ [CHR 0x22, CHR '']''])),
           (''scheduledDate'', Text ''2025-01-01T00:00:00.000Z''),
           (''image_0'', Blob sample_image)])"

section \<open>Properties of the image attachment manager\<close>

text \<open>
  Claim C1, as amended. The "too many" check of the attachment add operation counts the
  candidates that pass the type/size filter, not the raw batch: the batch is rejected
  wholesale (state unchanged, the "maximum of 4 images" warning as the only effect)
  exactly when the number of accepted candidates plus the current count exceeds 4; when
  that sum is at most 4 the accepted candidates are appended, whatever the raw length of
  the batch.
\<close>

theorem handleImageUpload_count_check:
  "(handleImageUpload st files = (st, [ShowToast too_many_images])
      \<longleftrightarrow> length (filter validFile files) + length (uploadedImages st) > 4) \<and>
   (length (filter validFile files) + length (uploadedImages st) \<le> 4 \<longrightarrow>
      handleImageUpload st files =
        (st\<lparr>uploadedImages := uploadedImages st @ filter validFile files\<rparr>, []))"
  by (auto simp: handleImageUpload_def Let_def)

text \<open>
  Three attachments and a batch of three valid files: the accepted candidates would not
  fit, the batch is rejected and the warning is shown. Three attachments and a batch of
  one valid file: the file is appended and there are four.
\<close>

theorem handleImageUpload_count_check_witness:
  "handleImageUpload
     (initial\<lparr>uploadedImages := [sample_image, sample_image, sample_image]\<rparr>)
     [sample_image, sample_image, sample_image]
   = (initial\<lparr>uploadedImages := [sample_image, sample_image, sample_image]\<rparr>,
      [ShowToast too_many_images]) \<and>
   handleImageUpload
     (initial\<lparr>uploadedImages := [sample_image, sample_image, sample_image]\<rparr>)
     [sample_image]
   = (initial\<lparr>uploadedImages := [sample_image, sample_image, sample_image, sample_image]\<rparr>,
      [])"
proof -
  have valid: "validFile sample_image"
    by (simp add: validFile_def sample_image_def)
  from handleImageUpload_count_check [of
      "initial\<lparr>uploadedImages := [sample_image, sample_image, sample_image]\<rparr>"
      "[sample_image, sample_image, sample_image]"]
    handleImageUpload_count_check [of
      "initial\<lparr>uploadedImages := [sample_image, sample_image, sample_image]\<rparr>"
      "[sample_image]"]
  show ?thesis
    by (simp add: valid)
qed

text \<open>
  Claim C1 as stated fails: with three attachments and a batch of two files, one valid
  JPEG and one PNG of 15 MiB, the current count plus the raw batch length is 5, yet the
  batch is not rejected: the JPEG is appended and no warning is emitted.
\<close>

theorem raw_count_counterexample:
  "length (uploadedImages (initial\<lparr>uploadedImages :=
       replicate 3 \<lparr>fname = ''a.png'', ftype = ''image/png'', fsize = 1000\<rparr>\<rparr>))
     + length [\<lparr>fname = ''b.jpg'', ftype = ''image/jpeg'', fsize = 2048\<rparr>,
               \<lparr>fname = ''c.png'', ftype = ''image/png'', fsize = 15 * 1024 * 1024\<rparr>] > 4 \<and>
   handleImageUpload
     (initial\<lparr>uploadedImages :=
       replicate 3 \<lparr>fname = ''a.png'', ftype = ''image/png'', fsize = 1000\<rparr>\<rparr>)
     [\<lparr>fname = ''b.jpg'', ftype = ''image/jpeg'', fsize = 2048\<rparr>,
      \<lparr>fname = ''c.png'', ftype = ''image/png'', fsize = 15 * 1024 * 1024\<rparr>]
   = (initial\<lparr>uploadedImages :=
       replicate 3 \<lparr>fname = ''a.png'', ftype = ''image/png'', fsize = 1000\<rparr> @
       [\<lparr>fname = ''b.jpg'', ftype = ''image/jpeg'', fsize = 2048\<rparr>]\<rparr>, [])"
  by (simp add: handleImageUpload_def validFile_def Let_def initial_def)

text \<open>
  Claim C7. A candidate is accepted if and only if its MIME type is image/jpeg or
  image/png and its size is at most 10 * 1024 * 1024 bytes. When the batch is not rejected
  for count, the handler has no effect besides the state update (the other candidates are
  dropped silently), and the new sequence is the old one followed by the accepted
  candidates in selection order.
\<close>

theorem handleImageUpload_filter_append:
  "handleImageUpload st files \<noteq> (st, [ShowToast too_many_images]) \<Longrightarrow>
   handleImageUpload st files =
     (st\<lparr>uploadedImages := uploadedImages st @
          filter (\<lambda>f. (ftype f = ''image/jpeg'' \<or> ftype f = ''image/png'') \<and>
                       fsize f \<le> 10 * 1024 * 1024) files\<rparr>, [])"
proof -
  have eq: "validFile = (\<lambda>f. (ftype f = ''image/jpeg'' \<or> ftype f = ''image/png'') \<and>
                       fsize f \<le> 10 * 1024 * 1024)"
    by (rule ext) (simp add: validFile_def)
  assume "handleImageUpload st files \<noteq> (st, [ShowToast too_many_images])"
  then show ?thesis
    unfolding eq [symmetric] by (simp add: handleImageUpload_def Let_def split: if_splits)
qed

text \<open>
  One attachment and a batch of a GIF, a valid PNG, an oversized JPEG and a JPEG of
  exactly 10 MiB: the PNG and the 10 MiB JPEG are appended, in that order.
\<close>

theorem handleImageUpload_filter_append_witness:
  "handleImageUpload
     (initial\<lparr>uploadedImages := [\<lparr>fname = ''a.png'', ftype = ''image/png'', fsize = 1000\<rparr>]\<rparr>)
     [\<lparr>fname = ''b.gif'', ftype = ''image/gif'', fsize = 10\<rparr>,
      \<lparr>fname = ''c.png'', ftype = ''image/png'', fsize = 20\<rparr>,
      \<lparr>fname = ''d.jpg'', ftype = ''image/jpeg'', fsize = 10485761\<rparr>,
      \<lparr>fname = ''e.jpg'', ftype = ''image/jpeg'', fsize = 10485760\<rparr>]
   = (initial\<lparr>uploadedImages :=
        [\<lparr>fname = ''a.png'', ftype = ''image/png'', fsize = 1000\<rparr>,
         \<lparr>fname = ''c.png'', ftype = ''image/png'', fsize = 20\<rparr>,
         \<lparr>fname = ''e.jpg'', ftype = ''image/jpeg'', fsize = 10485760\<rparr>]\<rparr>, [])"
proof -
  have "handleImageUpload
     (initial\<lparr>uploadedImages := [\<lparr>fname = ''a.png'', ftype = ''image/png'', fsize = 1000\<rparr>]\<rparr>)
     [\<lparr>fname = ''b.gif'', ftype = ''image/gif'', fsize = 10\<rparr>,
      \<lparr>fname = ''c.png'', ftype = ''image/png'', fsize = 20\<rparr>,
      \<lparr>fname = ''d.jpg'', ftype = ''image/jpeg'', fsize = 10485761\<rparr>,
      \<lparr>fname = ''e.jpg'', ftype = ''image/jpeg'', fsize = 10485760\<rparr>]
    \<noteq> (initial\<lparr>uploadedImages :=
          [\<lparr>fname = ''a.png'', ftype = ''image/png'', fsize = 1000\<rparr>]\<rparr>,
        [ShowToast too_many_images])"
    by (simp add: handleImageUpload_def validFile_def Let_def)
  from handleImageUpload_filter_append [OF this] show ?thesis
    by simp
qed

subsection \<open>The attachment invariant\<close>

lemma enumerate_filter_sub: "set (map snd (filter P (enumerate n xs))) \<subseteq> set xs"
  by (induction xs arbitrary: n) auto

lemma enumerate_filter_length: "length (map snd (filter P (enumerate n xs))) \<le> length xs"
  by (simp add: le_trans [OF length_filter_le])

lemma ok_handleImageUpload:
  "attachments_ok (uploadedImages st) \<Longrightarrow>
   attachments_ok (uploadedImages (fst (handleImageUpload st files)))"
  by (auto simp: attachments_ok_def handleImageUpload_def Let_def)

lemma ok_removeImage:
  assumes "attachments_ok (uploadedImages st)"
  shows "attachments_ok (uploadedImages (removeImage st index))"
proof -
  let ?ys = "map snd (filter (\<lambda>(i, _). i \<noteq> index) (enumerate 0 (uploadedImages st)))"
  have "length ?ys \<le> length (uploadedImages st)"
    by (rule enumerate_filter_length)
  moreover have "set ?ys \<subseteq> set (uploadedImages st)"
    by (rule enumerate_filter_sub)
  ultimately show ?thesis
    using assms by (auto simp: attachments_ok_def removeImage_def)
qed

lemma images_onSubmit_dispatch:
  "onSubmit_dispatch st data = Finished st' effs \<Longrightarrow> uploadedImages st' = uploadedImages st"
  "onSubmit_dispatch st data = Awaiting st' req \<Longrightarrow> uploadedImages st' = uploadedImages st"
  by (auto simp: onSubmit_dispatch_def onSubmit_finally_def Let_def split: sum.splits)

lemma images_handleSubmit_dispatch:
  "handleSubmit_dispatch isUrl st = Finished st' effs \<Longrightarrow>
     uploadedImages st' = uploadedImages st"
  "handleSubmit_dispatch isUrl st = Awaiting st' req \<Longrightarrow>
     uploadedImages st' = uploadedImages st"
  by (auto simp: handleSubmit_dispatch_def split: sum.splits dest: images_onSubmit_dispatch)

lemma images_onSubmit_settle:
  "uploadedImages (fst (onSubmit_settle st r)) = uploadedImages st \<or>
   uploadedImages (fst (onSubmit_settle st r)) = []"
  by (auto simp: onSubmit_settle_def onSubmit_finally_def form_reset_def
           split: fetch_result.splits)

lemma images_ai_try:
  "ai_try st r = Inr (st', effs) \<Longrightarrow> uploadedImages st' = uploadedImages st"
  by (auto simp: ai_try_def split: ai_result.splits if_splits option.splits sum.splits)

lemma images_handleAIGenerate:
  "uploadedImages (fst (handleAIGenerate st r)) = uploadedImages st"
  by (auto simp: handleAIGenerate_def Let_def split: sum.splits dest: images_ai_try)

lemma ok_react:
  assumes "attachments_ok (uploadedImages (comp p))"
  shows "attachments_ok (uploadedImages (comp (react isUrl p e)))"
proof (cases e)
  case (FilesSelected files)
  then show ?thesis using assms by (simp add: ok_handleImageUpload)
next
  case (RemoveClicked index)
  then show ?thesis using assms by (simp add: ok_removeImage)
next
  case SubmitPressed
  then show ?thesis using assms
    by (auto split: submission.splits dest: images_handleSubmit_dispatch)
next
  case (FetchSettled i r)
  then show ?thesis using assms images_onSubmit_settle [of "comp p" r]
    by (auto simp: attachments_ok_def)
next
  case (GenerateClicked r)
  then show ?thesis using assms by (simp add: images_handleAIGenerate)
qed (use assms in simp_all)

lemma ok_foldl:
  "attachments_ok (uploadedImages (comp p)) \<Longrightarrow>
   attachments_ok (uploadedImages (comp (foldl (react isUrl) p evs)))"
  by (induction evs arbitrary: p) (simp_all add: ok_react)

text \<open>
  Claim C8. After every sequence of events from the initial page (file selections,
  removals, submissions with their reset on success, and every other event of the
  component) the attachment sequence has at most 4 elements and each of them satisfies
  the type/size predicate; a file that fails the predicate is never in the sequence.
\<close>

theorem attachments_invariant:
  "length (uploadedImages (comp (run isUrl evs))) \<le> 4 \<and>
   (\<forall>f \<in> set (uploadedImages (comp (run isUrl evs))). validFile f)"
proof -
  have "attachments_ok (uploadedImages (comp start))"
    by (simp add: attachments_ok_def start_def initial_def)
  then have "attachments_ok (uploadedImages (comp (run isUrl evs)))"
    unfolding run_def by (rule ok_foldl)
  then show ?thesis by (simp add: attachments_ok_def)
qed

text \<open>
  A run: three files are selected, one of them a GIF; the first attachment is removed; a
  batch of four is rejected; a batch of three is accepted. Four valid images remain.
\<close>

theorem attachments_invariant_witness:
  "uploadedImages (comp (run sample_isUrl
      [FilesSelected [sample_image, sample_image\<lparr>ftype := ''image/gif''\<rparr>,
                      sample_image\<lparr>fname := ''b.png'', ftype := ''image/png''\<rparr>],
       RemoveClicked 0,
       FilesSelected [sample_image, sample_image, sample_image, sample_image],
       FilesSelected [sample_image, sample_image, sample_image]]))
     = [sample_image\<lparr>fname := ''b.png'', ftype := ''image/png''\<rparr>,
        sample_image, sample_image, sample_image] \<and>
   length [sample_image\<lparr>fname := ''b.png'', ftype := ''image/png''\<rparr>,
        sample_image, sample_image, sample_image] \<le> 4 \<and>
   validFile (sample_image\<lparr>fname := ''b.png'', ftype := ''image/png''\<rparr>) \<and>
   validFile sample_image"
proof -
  have run: "uploadedImages (comp (run sample_isUrl
      [FilesSelected [sample_image, sample_image\<lparr>ftype := ''image/gif''\<rparr>,
                      sample_image\<lparr>fname := ''b.png'', ftype := ''image/png''\<rparr>],
       RemoveClicked 0,
       FilesSelected [sample_image, sample_image, sample_image, sample_image],
       FilesSelected [sample_image, sample_image, sample_image]]))
     = [sample_image\<lparr>fname := ''b.png'', ftype := ''image/png''\<rparr>,
        sample_image, sample_image, sample_image]"
    by (simp add: run_def start_def initial_def handleImageUpload_def removeImage_def
          validFile_def sample_image_def Let_def)
  from attachments_invariant [of sample_isUrl
      "[FilesSelected [sample_image, sample_image\<lparr>ftype := ''image/gif''\<rparr>,
                      sample_image\<lparr>fname := ''b.png'', ftype := ''image/png''\<rparr>],
       RemoveClicked 0,
       FilesSelected [sample_image, sample_image, sample_image, sample_image],
       FilesSelected [sample_image, sample_image, sample_image]]"]
  show ?thesis unfolding run by simp
qed

subsection \<open>Evaluation of the sample draft\<close>

lemma pad_2: "pad 2 n = [digit_char (n div 10 mod 10), digit_char (n mod 10)]"
  by (simp add: numeral_2_eq_2)

lemma pad_3: "pad 3 n = pad 2 (n div 10) @ [digit_char (n mod 10)]"
  using pad.simps(2) [of 2 n] by simp

lemma pad_4: "pad 4 n = pad 3 (n div 10) @ [digit_char (n mod 10)]"
  using pad.simps(2) [of 3 n] by simp

lemma digit_char_simps:
  "digit_char 0 = CHR 0x30" "digit_char (Suc 0) = CHR 0x31" "digit_char 2 = CHR 0x32"
  "digit_char 3 = CHR 0x33" "digit_char 4 = CHR 0x34" "digit_char 5 = CHR 0x35"
  "digit_char 6 = CHR 0x36" "digit_char 7 = CHR 0x37" "digit_char 8 = CHR 0x38"
  "digit_char 9 = CHR 0x39"
  by (simp_all add: digit_char_def)

lemma YearFromDay_20089: "YearFromDay 20089 = 2025"
  unfolding YearFromDay_def DayFromYear_def Let_def by simp

lemma date_fields_20089: "date_fields 20089 = (2025, 1, 1)"
  unfolding date_fields_def YearFromDay_20089 Let_def
  by (simp add: DaysInYear_def DayFromYear_def MonthFromDay_def MonthStart_def)

lemma toISOString_2025:
  "toISOString (Date 1735689600000) = Inr ''2025-01-01T00:00:00.000Z''"
  by (simp add: toISOString_def time_value_def date_fields_20089 year_string_def pad_2 pad_3 pad_4
        digit_char_simps del: pad.simps)

lemma JSON_stringify_facebook:
  "JSON_stringify [''facebook''] = [CHR ''['', CHR 0x22] @ ''facebook'' @ [CHR 0x22, CHR '']'']"
  by (simp add: JSON_stringify_def json_quote_def json_escape_char_def)

lemma show_nat_digit: "n < 10 \<Longrightarrow> show_nat n = [digit_char n]"
  by (simp add: show_nat.simps)

lemma formSchema_sample: "formSchema sample_isUrl sample_draft = Inr sample_data"
  by (simp add: formSchema_def schema_errors_def schema_output_def check_postTitle_def
        check_caption_def check_hashtags_def check_platforms_def check_scheduledDate_def
        check_webhookUrl_def string_checks_def field_error_def time_value_def
        sample_isUrl_def sample_draft_def sample_data_def)

lemma build_formData_sample:
  "build_formData sample_data [sample_image] =
     Inr [(''postTitle'', Text ''Launch''),
          (''caption'', Text ''We shipped!''),
          (''hashtags'', Text ''#launch''),
          (''platforms'', Text ([CHR ''['', CHR 0x22] @ ''facebook'' @ [CHR 0x22, CHR '']''])),
          (''scheduledDate'', Text ''2025-01-01T00:00:00.000Z''),
          (''image_0'', Blob sample_image)]"
  by (simp add: build_formData_def sample_data_def toISOString_2025 JSON_stringify_facebook
        image_entries_def show_nat_digit digit_char_simps)

lemma onSubmit_dispatch_sample:
  "uploadedImages st = [sample_image] \<Longrightarrow>
   onSubmit_dispatch st sample_data = Awaiting (st\<lparr>isSubmitting := True\<rparr>) sample_request"
  by (simp add: onSubmit_dispatch_def build_formData_sample sample_request_def)
     (simp add: sample_data_def)


subsection \<open>Single-flight submission\<close>














section \<open>Properties of validation\<close>

lemma set_field_error:
  "set (field_error k issues) = (case issues of [] \<Rightarrow> {} | i # _ \<Rightarrow> {(k, i)})"
  by (simp add: field_error_def split: list.splits)

lemma field_error_Nil: "field_error k issues = [] \<longleftrightarrow> issues = []"
  by (simp add: field_error_def split: list.splits)

lemma formSchema_Inl:
  "schema_errors isUrl v \<noteq> [] \<Longrightarrow> formSchema isUrl v = Inl (schema_errors isUrl v)"
  by (simp add: formSchema_def split: list.splits)

lemma formSchema_Inr:
  "formSchema isUrl v = Inr data \<Longrightarrow> schema_errors isUrl v = [] \<and> data = schema_output v"
  by (auto simp: formSchema_def split: list.splits)

lemma schema_errors_mem:
  "(''postTitle'', i) \<in> set (field_error ''postTitle'' (check_postTitle (postTitle v))) \<Longrightarrow>
     (''postTitle'', i) \<in> set (schema_errors isUrl v)"
  "(''caption'', i) \<in> set (field_error ''caption'' (check_caption (caption v))) \<Longrightarrow>
     (''caption'', i) \<in> set (schema_errors isUrl v)"
  "(''platforms'', i) \<in> set (field_error ''platforms'' (check_platforms (platforms v))) \<Longrightarrow>
     (''platforms'', i) \<in> set (schema_errors isUrl v)"
  "(''scheduledDate'', i)
      \<in> set (field_error ''scheduledDate'' (check_scheduledDate (scheduledDate v))) \<Longrightarrow>
     (''scheduledDate'', i) \<in> set (schema_errors isUrl v)"
  "(''webhookUrl'', i)
      \<in> set (field_error ''webhookUrl'' (check_webhookUrl isUrl (webhookUrl v))) \<Longrightarrow>
     (''webhookUrl'', i) \<in> set (schema_errors isUrl v)"
  unfolding schema_errors_def by simp_all

lemma violated_issue:
  assumes "\<not> isUrl []" and "violated isUrl rule v"
  shows "\<exists>issue. (rule_field rule, issue) \<in> set (schema_errors isUrl v)"
proof (cases rule)
  case title_required
  with assms have "\<exists>i. (''postTitle'', i) \<in> set (field_error ''postTitle'' (check_postTitle (postTitle v)))"
    by (auto simp: check_postTitle_def string_checks_def field_error_def)
  with title_required show ?thesis
    by (auto dest: schema_errors_mem(1) [where isUrl = isUrl])
next
  case title_at_most_100
  with assms have "\<exists>i. (''postTitle'', i) \<in> set (field_error ''postTitle'' (check_postTitle (postTitle v)))"
    by (auto simp: check_postTitle_def string_checks_def field_error_def)
  with title_at_most_100 show ?thesis
    by (auto dest: schema_errors_mem(1) [where isUrl = isUrl])
next
  case caption_required
  with assms have "\<exists>i. (''caption'', i) \<in> set (field_error ''caption'' (check_caption (caption v)))"
    by (cases "caption v") (auto simp: check_caption_def string_checks_def field_error_def)
  with caption_required show ?thesis
    by (auto dest: schema_errors_mem(2) [where isUrl = isUrl])
next
  case caption_at_most_2200
  with assms have "\<exists>i. (''caption'', i) \<in> set (field_error ''caption'' (check_caption (caption v)))"
    by (cases "caption v") (auto simp: check_caption_def string_checks_def field_error_def)
  with caption_at_most_2200 show ?thesis
    by (auto dest: schema_errors_mem(2) [where isUrl = isUrl])
next
  case platform_selected
  with assms have "\<exists>i. (''platforms'', i) \<in> set (field_error ''platforms'' (check_platforms (platforms v)))"
    by (auto simp: check_platforms_def field_error_def)
  with platform_selected show ?thesis
    by (auto dest: schema_errors_mem(3) [where isUrl = isUrl])
next
  case date_present
  with assms have "\<exists>i. (''scheduledDate'', i) \<in> set (field_error ''scheduledDate'' (check_scheduledDate (scheduledDate v)))"
    by (auto simp: check_scheduledDate_def field_error_def)
  with date_present show ?thesis
    by (auto dest: schema_errors_mem(4) [where isUrl = isUrl])
next
  case date_valid
  with assms have "\<exists>i. (''scheduledDate'', i) \<in> set (field_error ''scheduledDate'' (check_scheduledDate (scheduledDate v)))"
    by (cases "scheduledDate v") (auto simp: check_scheduledDate_def field_error_def)
  with date_valid show ?thesis
    by (auto dest: schema_errors_mem(4) [where isUrl = isUrl])
next
  case url_present
  with assms have "\<exists>i. (''webhookUrl'', i) \<in> set (field_error ''webhookUrl'' (check_webhookUrl isUrl (webhookUrl v)))"
    by (auto simp: check_webhookUrl_def field_error_def)
  with url_present show ?thesis
    by (auto dest: schema_errors_mem(5) [where isUrl = isUrl])
next
  case url_well_formed
  with assms have "\<exists>i. (''webhookUrl'', i) \<in> set (field_error ''webhookUrl'' (check_webhookUrl isUrl (webhookUrl v)))"
    by (auto simp: check_webhookUrl_def field_error_def)
  with url_well_formed show ?thesis
    by (auto dest: schema_errors_mem(5) [where isUrl = isUrl])
qed

text \<open>
  Claim C2. When the draft violates at least one validation rule, submitting reports an
  error at the field of every violated rule (not only of the first one), issues no
  network request (the handler has no effect at all), and leaves every field value and
  the attachments as they were. The URL test is a parameter; it is assumed to reject the
  empty string.
\<close>

theorem handleSubmit_validation_complete:
  assumes "\<not> isUrl []" and "violated isUrl rule0 (form st)"
  shows "snd (handleSubmit isUrl st r) = [] \<and>
         form (fst (handleSubmit isUrl st r)) = form st \<and>
         uploadedImages (fst (handleSubmit isUrl st r)) = uploadedImages st \<and>
         (\<forall>rule. violated isUrl rule (form st) \<longrightarrow>
            (\<exists>issue. (rule_field rule, issue)
                        \<in> set (errors (fst (handleSubmit isUrl st r)))))"
proof -
  from violated_issue [OF assms] have "schema_errors isUrl (form st) \<noteq> []"
    by auto
  then have "handleSubmit isUrl st r = (st\<lparr>errors := schema_errors isUrl (form st)\<rparr>, [])"
    by (simp add: handleSubmit_def formSchema_Inl)
  then show ?thesis
    using violated_issue [of isUrl, OF assms(1)] by simp
qed

text \<open>
  Submitting the empty initial draft: five fields fail, each gets its message, nothing is
  sent and the draft is unchanged.
\<close>

theorem handleSubmit_validation_complete_witness:
  "errors (fst (handleSubmit sample_isUrl initial (Response 200))) =
     [(''postTitle'', Message ''Post title is required''),
      (''caption'', Message ''Caption is required''),
      (''platforms'', Message ''Select at least one platform''),
      (''scheduledDate'', Message ''Please select a date and time for posting''),
      (''webhookUrl'', Message ''Please enter a valid webhook URL'')] \<and>
   snd (handleSubmit sample_isUrl initial (Response 200)) = [] \<and>
   form (fst (handleSubmit sample_isUrl initial (Response 200))) = form initial \<and>
   uploadedImages (fst (handleSubmit sample_isUrl initial (Response 200)))
     = uploadedImages initial \<and>
   violated sample_isUrl title_required (form initial) \<and>
   violated sample_isUrl platform_selected (form initial) \<and>
   (\<exists>issue. (rule_field title_required, issue)
               \<in> set (errors (fst (handleSubmit sample_isUrl initial (Response 200))))) \<and>
   (\<exists>issue. (rule_field platform_selected, issue)
               \<in> set (errors (fst (handleSubmit sample_isUrl initial (Response 200)))))"
proof -
  have url: "\<not> sample_isUrl []"
    by (simp add: sample_isUrl_def)
  have title: "violated sample_isUrl title_required (form initial)"
    by (simp add: initial_def defaultValues_def)
  have errs: "schema_errors sample_isUrl (form initial) =
     [(''postTitle'', Message ''Post title is required''),
      (''caption'', Message ''Caption is required''),
      (''platforms'', Message ''Select at least one platform''),
      (''scheduledDate'', Message ''Please select a date and time for posting''),
      (''webhookUrl'', Message ''Please enter a valid webhook URL'')]"
    by (simp add: schema_errors_def field_error_def check_postTitle_def check_caption_def
          check_hashtags_def check_platforms_def check_scheduledDate_def check_webhookUrl_def
          string_checks_def sample_isUrl_def initial_def defaultValues_def)
  have "errors (fst (handleSubmit sample_isUrl initial (Response 200))) =
          schema_errors sample_isUrl (form initial)"
    by (simp add: handleSubmit_def formSchema_def errs)
  with errs have stored: "errors (fst (handleSubmit sample_isUrl initial (Response 200))) =
     [(''postTitle'', Message ''Post title is required''),
      (''caption'', Message ''Caption is required''),
      (''platforms'', Message ''Select at least one platform''),
      (''scheduledDate'', Message ''Please select a date and time for posting''),
      (''webhookUrl'', Message ''Please enter a valid webhook URL'')]"
    by simp
  have platform: "violated sample_isUrl platform_selected (form initial)"
    by (simp add: initial_def defaultValues_def)
  from handleSubmit_validation_complete [OF url title, of "Response 200"]
  have "snd (handleSubmit sample_isUrl initial (Response 200)) = []"
    and "form (fst (handleSubmit sample_isUrl initial (Response 200))) = form initial"
    and "uploadedImages (fst (handleSubmit sample_isUrl initial (Response 200)))
           = uploadedImages initial"
    by simp_all
  with stored title platform show ?thesis
    by simp
qed

section \<open>The encodings can be read back\<close>

subsection \<open>The calendar\<close>

lemma div_bounds:
  fixes a b :: int
  assumes "0 < b"
  shows "b * (a div b) \<le> a" and "a < b * (a div b) + b"
proof -
  have "a = b * (a div b) + a mod b"
    by simp
  moreover have "0 \<le> a mod b" "a mod b < b"
    using assms by simp_all
  ultimately show "b * (a div b) \<le> a" and "a < b * (a div b) + b"
    by linarith+
qed

lemma DayFromYear_approx:
  shows "146097 * y - 287811697 < 400 * DayFromYear y"
    and "400 * DayFromYear y < 146097 * y - 287810497"
proof -
  define a where "a = (y - 1969) div 4"
  define b where "b = (y - 1901) div 100"
  define c where "c = (y - 1601) div 400"
  have a: "4 * a \<le> y - 1969" "y - 1969 < 4 * a + 4"
    using div_bounds [of 4 "y - 1969"] by (simp_all add: a_def)
  have b: "100 * b \<le> y - 1901" "y - 1901 < 100 * b + 100"
    using div_bounds [of 100 "y - 1901"] by (simp_all add: b_def)
  have c: "400 * c \<le> y - 1601" "y - 1601 < 400 * c + 400"
    using div_bounds [of 400 "y - 1601"] by (simp_all add: c_def)
  have d: "DayFromYear y = 365 * y - 719050 + a - b + c"
    by (simp add: DayFromYear_def a_def b_def c_def)
  show "146097 * y - 287811697 < 400 * DayFromYear y"
    using a b c d by linarith
  show "400 * DayFromYear y < 146097 * y - 287810497"
    using a b c d by linarith
qed

lemma YearFromDay_bounds:
  "DayFromYear (YearFromDay day) \<le> day \<and> day < DayFromYear (YearFromDay day + 1)"
proof -
  define e where "e = (400 * day) div 146097"
  have e: "146097 * e \<le> 400 * day" "400 * day < 146097 * e + 146097"
    using div_bounds [of 146097 "400 * day"] by (simp_all add: e_def)
  define y1 where "y1 = 1970 + e - 1"
  define y2 where "y2 = 1970 + e + 2"
  have y: "y1 = e + 1969" "y2 = e + 1972"
    by (simp_all add: y1_def y2_def)
  have lo: "DayFromYear y1 \<le> day"
    using DayFromYear_approx(2) [of y1] e y by linarith
  have hi: "day < DayFromYear y2"
    using DayFromYear_approx(1) [of y2] e y by linarith
  have "YearFromDay day =
      (if day < DayFromYear (1970 + e) then 1970 + e - 1
       else if DayFromYear (1970 + e + 1) \<le> day then 1970 + e + 1 else 1970 + e)"
    by (simp add: YearFromDay_def e_def Let_def)
  then show ?thesis
    using lo hi by (auto simp: add.assoc y1_def y2_def)
qed

lemma step_div: "0 < n \<Longrightarrow> (a + 1) div n - a div n = (if (a + 1) mod n = 0 then 1 else (0::int))"
proof -
  assume n: "0 < n"
  define q where "q = a div n"
  define r where "r = a mod n"
  have a: "a = r + n * q" "0 \<le> r" "r < n"
    using n by (simp_all add: q_def r_def)
  have eq: "a + 1 = (r + 1) + n * q"
    using a by simp
  have dv: "(a + 1) div n = q + (r + 1) div n" and md: "(a + 1) mod n = (r + 1) mod n"
    unfolding eq using n by simp_all
  show ?thesis
  proof (cases "r + 1 = n")
    case True
    then show ?thesis using n dv md by (simp add: q_def)
  next
    case False
    then have r1: "0 \<le> r + 1" "r + 1 < n" using a by simp_all
    then have "(r + 1) div n = 0" "(r + 1) mod n = r + 1"
      by simp_all
    then show ?thesis using r1 a dv md by (simp add: q_def)
  qed
qed

lemma DayFromYear_step: "DayFromYear (y + 1) - DayFromYear y = DaysInYear y"
proof -
  have a: "(y - 1968) div 4 - (y - 1969) div 4 = (if (y - 1968) mod 4 = 0 then 1 else 0)"
    using step_div [of 4 "y - 1969"] by simp
  have b: "(y - 1900) div 100 - (y - 1901) div 100 = (if (y - 1900) mod 100 = 0 then 1 else 0)"
    using step_div [of 100 "y - 1901"] by simp
  have c: "(y - 1600) div 400 - (y - 1601) div 400 = (if (y - 1600) mod 400 = 0 then 1 else 0)"
    using step_div [of 400 "y - 1601"] by simp
  have m4: "(y - 1968) mod 4 = y mod 4"
    using mod_mult_self2 [of y 4 "- 492"] by simp
  have m100: "(y - 1900) mod 100 = y mod 100"
    using mod_mult_self2 [of y 100 "- 19"] by simp
  have m400: "(y - 1600) mod 400 = y mod 400"
    using mod_mult_self2 [of y 400 "- 4"] by simp
  have "(4::int) dvd 100" "(100::int) dvd 400"
    by simp_all
  then have d4: "y mod 100 = 0 \<Longrightarrow> y mod 4 = 0" and d100: "y mod 400 = 0 \<Longrightarrow> y mod 100 = 0"
    by (auto simp: mod_eq_0_iff_dvd intro: dvd_trans)
  have "DayFromYear (y + 1) - DayFromYear y =
          365 + ((y - 1968) div 4 - (y - 1969) div 4)
              - ((y - 1900) div 100 - (y - 1901) div 100)
              + ((y - 1600) div 400 - (y - 1601) div 400)"
    by (simp add: DayFromYear_def)
  then show ?thesis
    unfolding a b c m4 m100 m400 using d4 d100 by (simp add: DaysInYear_def)
qed


lemma DaysInYear_cases: "DaysInYear y = 365 \<or> DaysInYear y = 366"
  by (simp add: DaysInYear_def)

lemma month_of_day:
  assumes "leap = 0 \<or> leap = 1" and "0 \<le> doy" and "doy < 365 + leap"
  shows "MonthFromDay leap doy < 12"
    and "MonthStart leap (MonthFromDay leap doy) \<le> doy"
    and "doy - MonthStart leap (MonthFromDay leap doy)
           < DaysInMonth leap (MonthFromDay leap doy)"
  using assms by (auto simp: MonthFromDay_def MonthStart_def DaysInMonth_def)

lemma date_fields_ok:
  assumes "date_fields day = (y, m, d)"
  shows "valid_date y m d" and "MakeDay y m d = day"
proof -
  define leap where "leap = DaysInYear y - 365"
  define doy where "doy = day - DayFromYear y"
  define k where "k = MonthFromDay leap doy"
  from assms have y: "y = YearFromDay day"
    by (auto simp: date_fields_def Let_def)
  from assms have m: "m = k + 1" and d: "d = nat (doy - MonthStart leap k + 1)"
    unfolding leap_def doy_def k_def y by (auto simp: date_fields_def Let_def)
  have leap: "leap = 0 \<or> leap = 1"
    using DaysInYear_cases [of y] by (auto simp: leap_def)
  have "DayFromYear y \<le> day" "day < DayFromYear (y + 1)"
    using YearFromDay_bounds [of day] by (simp_all add: y)
  moreover have "DayFromYear (y + 1) = DayFromYear y + 365 + leap"
    using DayFromYear_step [of y] by (simp add: leap_def)
  ultimately have doy: "0 \<le> doy" "doy < 365 + leap"
    by (simp_all add: doy_def)
  note mo = month_of_day [OF leap doy, folded k_def]
  from mo show "valid_date y m d"
    by (simp add: valid_date_def m d leap_def [symmetric])
  from mo show "MakeDay y m d = day"
    by (simp add: MakeDay_def m d leap_def [symmetric] doy_def)
qed

subsection \<open>Decimal fields and the date-time string\<close>

lemma digit_char_code: "n < 10 \<Longrightarrow> (of_char (digit_char n) :: nat) = 48 + n"
proof -
  assume "n < 10"
  then have "n \<in> {0, 1, 2, 3, 4, 5, 6, 7, 8, 9}"
    by simp arith
  then show ?thesis
    by (auto simp: digit_char_def)
qed

lemma length_pad: "length (pad k n) = k"
  by (induction k arbitrary: n) simp_all

lemma digits_pad: "list_all is_digit (pad k n)"
  by (induction k arbitrary: n) (simp_all add: is_digit_def digit_char_code)

lemma dec_value_pad: "dec_value (pad k n) = n mod 10 ^ k"
proof (induction k arbitrary: n)
  case 0
  then show ?case by (simp add: dec_value_def)
next
  case (Suc k)
  have "dec_value (pad (Suc k) n) = 10 * dec_value (pad k (n div 10)) + n mod 10"
    by (simp add: dec_value_def digit_char_code)
  also have "\<dots> = 10 * ((n div 10) mod 10 ^ k) + n mod 10"
    by (simp add: Suc.IH)
  also have "\<dots> = n mod 10 ^ Suc k"
    by (simp add: mod_mult2_eq)
  finally show ?case .
qed

lemma take_number_pad:
  "take_number k (pad k n @ rest) = Some (n mod 10 ^ k, rest)"
  by (simp add: take_number_def digits_pad dec_value_pad length_pad)

lemma expect_Cons: "expect c (c # rest) = Some rest"
  by (simp add: expect_def)


lemma pad_head: "\<exists>c cs. pad (Suc k) n = c # cs \<and> is_digit c"
proof -
  have all: "list_all is_digit (pad (Suc k) n)" and len: "length (pad (Suc k) n) = Suc k"
    by (rule digits_pad) (rule length_pad)
  show ?thesis
  proof (cases "pad (Suc k) n")
    case Nil
    with len show ?thesis by simp
  next
    case (Cons c cs)
    with all have "is_digit c" by (simp del: pad.simps)
    with Cons show ?thesis by blast
  qed
qed

lemma parse_year_string:
  assumes "- 1000000 < y" and "y < 1000000"
  shows "parse_year (year_string y @ rest) = Some (y, rest)"
proof -
  consider "0 \<le> y \<and> y \<le> 9999" | "y < 0" | "9999 < y"
    by linarith
  then show ?thesis
  proof cases
    case 1
    obtain c cs where c: "pad 4 (nat y) = c # cs" "is_digit c"
      using pad_head [of 3 "nat y"] by auto
    then have "c \<noteq> CHR ''+''" "c \<noteq> CHR ''-''"
      by (auto simp: is_digit_def)
    moreover have "nat y < 10000"
      using 1 by linarith
    then have "take_number 4 (pad 4 (nat y) @ rest) = Some (nat y, rest)"
      by (simp add: take_number_pad)
    ultimately show ?thesis
      using 1 c(1) by (simp add: parse_year_def year_string_def)
  next
    case 2
    have "nat (- y) < 1000000"
      using 2 assms by linarith
    then have "take_number 6 (pad 6 (nat (- y)) @ rest) = Some (nat (- y), rest)"
      by (simp add: take_number_pad)
    then show ?thesis
      using 2 by (simp add: parse_year_def year_string_def)
  next
    case 3
    have "nat y < 1000000"
      using 3 assms by linarith
    then have "take_number 6 (pad 6 (nat y) @ rest) = Some (nat y, rest)"
      by (simp add: take_number_pad)
    then show ?thesis
      using 3 by (simp add: parse_year_def year_string_def)
  qed
qed

lemma time_of_day:
  fixes ms :: nat
  assumes "ms < 86400000"
  shows "ms div 3600000 < 24"
    and "ms div 3600000 * 3600000 + ms div 60000 mod 60 * 60000 +
           ms div 1000 mod 60 * 1000 + ms mod 1000 = ms"
proof -
  show "ms div 3600000 < 24"
    using assms by (simp add: less_mult_imp_div_less)
  define a where "a = ms div 1000"
  define b where "b = a div 60"
  have 1: "ms div 60000 = b"
    using div_mult2_eq [of ms 1000 60] by (simp add: a_def b_def)
  have 2: "ms div 3600000 = b div 60"
    using div_mult2_eq [of ms 60000 60] 1 by simp
  have "ms = a * 1000 + ms mod 1000"
    by (simp add: a_def)
  moreover have "a = b * 60 + a mod 60"
    by (simp add: b_def)
  moreover have "b = b div 60 * 60 + b mod 60"
    by simp
  ultimately have "b div 60 * 3600000 + b mod 60 * 60000 + a mod 60 * 1000 + ms mod 1000 = ms"
    by linarith
  then show "ms div 3600000 * 3600000 + ms div 60000 mod 60 * 60000 +
           ms div 1000 mod 60 * 1000 + ms mod 1000 = ms"
    by (simp add: 1 2 a_def)
qed

lemma year_range:
  assumes "\<bar>t\<bar> \<le> 8640000000000000"
  shows "- 1000000 < YearFromDay (t div 86400000)" and "YearFromDay (t div 86400000) < 1000000"
proof -
  define day where "day = t div 86400000"
  define y where "y = YearFromDay day"
  define y' where "y' = y + 1"
  have day: "86400000 * day \<le> t" "t < 86400000 * day + 86400000"
    using div_bounds [of 86400000 t] by (simp_all add: day_def)
  have b: "DayFromYear y \<le> day" "day < DayFromYear y'"
    using YearFromDay_bounds [of day] by (simp_all add: y_def y'_def)
  have "y < 1000000"
    using DayFromYear_approx(1) [of y] b(1) day assms by linarith
  moreover have "- 1000000 < y"
    using DayFromYear_approx(2) [of y'] b(2) day assms y'_def by linarith
  ultimately show "- 1000000 < YearFromDay (t div 86400000)"
    and "YearFromDay (t div 86400000) < 1000000"
    by (simp_all add: y_def day_def)
qed

lemma parse_iso_toISOString:
  assumes "time_value d = Some t"
  shows "\<exists>stamp. toISOString d = Inr stamp \<and> parse_iso stamp = Some t"
proof -
  define day where "day = t div 86400000"
  define ms where "ms = nat (t mod 86400000)"
  obtain y m dd where f: "date_fields day = (y, m, dd)"
    by (cases "date_fields day") auto
  from assms have range: "\<bar>t\<bar> \<le> 8640000000000000"
    by (cases d) (auto simp: time_value_def split: if_splits)
  have y: "y = YearFromDay day"
    using f by (auto simp: date_fields_def Let_def)
  have yr: "- 1000000 < y" "y < 1000000"
    using year_range [OF range] by (simp_all add: y day_def)
  note ok = date_fields_ok [OF f]
  have leap: "DaysInYear y - 365 = 0 \<or> DaysInYear y - 365 = 1"
    using DaysInYear_cases [of y] by auto
  have m: "m < 100" and dd: "dd < 100"
    using ok(1) leap by (auto simp: valid_date_def DaysInMonth_def nth_Cons' split: if_splits)
  have ms: "ms < 86400000" "int ms = t mod 86400000"
    by (simp_all add: ms_def nat_less_iff)
  note tod = time_of_day [OF ms(1)]
  have t: "day * 86400000 + int ms = t"
    by (simp add: day_def ms(2))
  define stamp where "stamp =
      year_string y @ ''-'' @ pad 2 m @ ''-'' @ pad 2 dd @ ''T'' @
        pad 2 (ms div 3600000) @ '':'' @ pad 2 (ms div 60000 mod 60) @ '':'' @
        pad 2 (ms div 1000 mod 60) @ ''.'' @ pad 3 (ms mod 1000) @ ''Z''"
  have "toISOString d = Inr stamp"
    using assms f by (simp add: toISOString_def Let_def day_def ms_def stamp_def)
  moreover have "parse_iso stamp = Some t"
    unfolding parse_iso_def stamp_def
    using m dd tod(1) ok t tod(2)
    by (simp add: parse_year_string [OF yr] take_number_pad expect_Cons)
  ultimately show ?thesis
    by blast
qed

lemma is_digit_digit_char: "n < 10 \<Longrightarrow> is_digit (digit_char n)"
  by (simp add: is_digit_def digit_char_code)

lemma dec_value_snoc: "dec_value (cs @ [c]) = 10 * dec_value cs + (of_char c - 48)"
  by (simp add: dec_value_def)

lemma show_nat_read: "read_decimal (show_nat n) = Some n"
proof -
  have "show_nat n \<noteq> [] \<and> list_all is_digit (show_nat n) \<and> dec_value (show_nat n) = n"
  proof (induction n rule: show_nat.induct)
    case (1 n)
    show ?case
    proof (cases "n < 10")
      case True
      then have "show_nat n = [] @ [digit_char n]"
        by (simp add: show_nat.simps [of n])
      with True show ?thesis
        by (simp add: is_digit_digit_char dec_value_snoc digit_char_code del: append_Nil)
           (simp add: dec_value_def)
    next
      case False
      with 1 have ih: "list_all is_digit (show_nat (n div 10))"
        "dec_value (show_nat (n div 10)) = n div 10"
        by simp_all
      have d: "n mod 10 < 10"
        by simp
      from False have "show_nat n = show_nat (n div 10) @ [digit_char (n mod 10)]"
        by (simp add: show_nat.simps [of n])
      with ih show ?thesis
        by (simp add: is_digit_digit_char [OF d] dec_value_snoc digit_char_code [OF d])
    qed
  qed
  then show ?thesis
    by (simp add: read_decimal_def)
qed

subsection \<open>The JSON text\<close>

lemma hex_digit_char: "k < 16 \<Longrightarrow> hex_val (digit_char k) = Some k"
proof -
  assume "k < 16"
  then have "k \<in> {0, 1, 2, 3, 4, 5, 6, 7, 8, 9, 10, 11, 12, 13, 14, 15}"
    by simp arith
  then show ?thesis
    by (auto simp: digit_char_def hex_val_def)
qed

lemma body_escape:
  "json_string_body (json_escape_char c @ tail) = with_char c (json_string_body tail)"
proof -
  consider "c = CHR 0x22" | "c = CHR 0x5C" | "c = CHR 0x08" | "c = CHR 0x09" | "c = CHR 0x0A"
    | "c = CHR 0x0C" | "c = CHR 0x0D"
    | "c \<notin> {CHR 0x22, CHR 0x5C, CHR 0x08, CHR 0x09, CHR 0x0A, CHR 0x0C, CHR 0x0D}"
      "(of_char c :: nat) < 32"
    | "c \<notin> {CHR 0x22, CHR 0x5C, CHR 0x08, CHR 0x09, CHR 0x0A, CHR 0x0C, CHR 0x0D}"
      "\<not> (of_char c :: nat) < 32"
    by blast
  then show ?thesis
  proof cases
    case 8
    define n where "n = (of_char c :: nat)"
    have n: "n < 32" using 8 by (simp add: n_def)
    then have h: "n div 16 < 16" "n mod 16 < 16" by simp_all
    have "char_of (16 * (n div 16) + n mod 16) = c"
      by (simp add: n_def)
    with 8 h show ?thesis
      by (simp add: json_escape_char_def hex_digit_char n_def [symmetric])
  next
    case 9
    then show ?thesis
      by (simp add: json_escape_char_def)
  qed (simp_all add: json_escape_char_def simple_escape_def)
qed

lemma body_string:
  "json_string_body (concat (map json_escape_char s) @ CHR 0x22 # rest) = Some (s, rest)"
  by (induction s) (simp_all add: body_escape with_char_def)

lemma length_join: "length xs \<le> length (join_comma (map json_quote xs))"
  by (induction xs rule: join_comma.induct) (simp_all add: json_quote_def)

lemma elements_join:
  "length xs < n \<Longrightarrow>
   json_elements n (join_comma (map json_quote (x # xs)) @ '']'') = Some (x # xs)"
proof (induction xs arbitrary: x n)
  case Nil
  then obtain k where "n = Suc k" by (cases n) auto
  then show ?case
    by (simp add: json_quote_def body_string)
next
  case (Cons y ys)
  then obtain k where k: "n = Suc k" "length ys < k" by (cases n) auto
  from Cons.IH [OF k(2), of y] show ?case
    by (simp add: k(1) json_quote_def body_string)
qed

lemma json_parse_stringify: "json_parse_strings (JSON_stringify xs) = Some xs"
proof (cases xs)
  case Nil
  then show ?thesis
    by (simp add: json_parse_strings_def JSON_stringify_def)
next
  case (Cons y ys)
  have ne: "join_comma (map json_quote (y # ys)) @ '']'' \<noteq> '']''"
    using length_join [of "y # ys"] by auto
  have "length ys < length (join_comma (map json_quote (y # ys)) @ '']'')"
    using length_join [of "y # ys"] by simp
  from elements_join [OF this] ne show ?thesis
    by (simp add: json_parse_strings_def JSON_stringify_def Cons)
qed

section \<open>Properties of the submission dispatcher\<close>

lemma onSubmit_settle_failure:
  "r = Rejected \<or> (\<exists>status. r = Response status \<and> (status < 200 \<or> 299 < status)) \<Longrightarrow>
   onSubmit_settle st r = (st\<lparr>isSubmitting := False\<rparr>, onSubmit_catch)"
  by (auto simp: onSubmit_settle_def onSubmit_finally_def response_ok_def)

lemma onSubmit_settle_success:
  "200 \<le> status \<Longrightarrow> status \<le> 299 \<Longrightarrow>
   onSubmit_settle st (Response status) =
     (st\<lparr>form := defaultValues, errors := [], uploadedImages := [], isSubmitting := False\<rparr>,
      [ShowToast submit_success_toast])"
  by (simp add: onSubmit_settle_def onSubmit_finally_def form_reset_def response_ok_def)

text \<open>
  Claim C3. If building the request body throws, or the fetch is rejected at the transport
  level, or the response status is outside 200..299, then \<open>onSubmit\<close> emits the failure
  notification and returns the state it was given with only the busy flag cleared: every
  draft field and every attachment is as before the submit.
\<close>

theorem onSubmit_failure_preserves_draft:
  assumes "(\<exists>e. build_formData data (uploadedImages st) = Inl e) \<or> r = Rejected \<or>
           (\<exists>status. r = Response status \<and> (status < 200 \<or> 299 < status))"
  shows "ShowToast submit_failure_toast \<in> set (snd (onSubmit st data r)) \<and>
         fst (onSubmit st data r) = st\<lparr>isSubmitting := False\<rparr> \<and>
         form (fst (onSubmit st data r)) = form st \<and>
         uploadedImages (fst (onSubmit st data r)) = uploadedImages st"
proof (cases "build_formData data (uploadedImages st)")
  case (Inl e)
  then show ?thesis
    by (simp add: onSubmit_def onSubmit_dispatch_def onSubmit_finally_def onSubmit_catch_def)
next
  case (Inr formData)
  with assms have "r = Rejected \<or> (\<exists>status. r = Response status \<and> (status < 200 \<or> 299 < status))"
    by simp
  then have "onSubmit_settle (st\<lparr>isSubmitting := True\<rparr>) r =
               (st\<lparr>isSubmitting := False\<rparr>, onSubmit_catch)"
    by (simp add: onSubmit_settle_failure)
  with Inr show ?thesis
    by (simp add: onSubmit_def onSubmit_dispatch_def onSubmit_catch_def)
qed

text \<open>
  The sample draft with one image, answered with status 500: the request was sent, the
  failure is logged and notified, and the state is the one before the submit.
\<close>

theorem onSubmit_failure_preserves_draft_witness:
  "onSubmit (initial\<lparr>form := sample_draft, uploadedImages := [sample_image]\<rparr>) sample_data
     (Response 500)
   = (initial\<lparr>form := sample_draft, uploadedImages := [sample_image]\<rparr>,
      [Fetch sample_request, ConsoleError ''Submission error:'',
       ShowToast submit_failure_toast]) \<and>
   ShowToast submit_failure_toast
     \<in> set (snd (onSubmit (initial\<lparr>form := sample_draft, uploadedImages := [sample_image]\<rparr>)
                   sample_data (Response 500)))"
proof -
  have bad: "(\<exists>e. build_formData sample_data
                (uploadedImages (initial\<lparr>form := sample_draft, uploadedImages := [sample_image]\<rparr>))
                = Inl e) \<or>
             Response 500 = Rejected \<or>
             (\<exists>status. Response 500 = Response status \<and> (status < 200 \<or> 299 < status))"
    by simp
  have eff: "snd (onSubmit (initial\<lparr>form := sample_draft, uploadedImages := [sample_image]\<rparr>)
                   sample_data (Response 500))
               = [Fetch sample_request, ConsoleError ''Submission error:'',
                  ShowToast submit_failure_toast]"
    by (simp add: onSubmit_def onSubmit_dispatch_sample onSubmit_settle_def response_ok_def
          onSubmit_catch_def)
  from onSubmit_failure_preserves_draft [OF bad] eff show ?thesis
    by (simp add: prod_eq_iff initial_def)
qed

lemma validated_date:
  assumes "formSchema isUrl v = Inr data"
  shows "\<exists>t. time_value (data_scheduledDate data) = Some t"
proof -
  from assms have "schema_errors isUrl v = []" and data: "data = schema_output v"
    by (simp_all add: formSchema_Inr)
  then have "check_scheduledDate (scheduledDate v) = []"
    by (simp add: schema_errors_def field_error_Nil)
  then show ?thesis
    by (auto simp: check_scheduledDate_def schema_output_def data split: option.splits)
qed

lemma toISOString_defined:
  "time_value d = Some t \<Longrightarrow> \<exists>stamp. toISOString d = Inr stamp"
  unfolding toISOString_def Let_def by (cases "date_fields (t div 86400000)") simp

lemma validated_build_formData:
  assumes "formSchema isUrl v = Inr data"
  shows "\<exists>stamp. toISOString (data_scheduledDate data) = Inr stamp \<and>
           build_formData data images =
             Inr ([(''postTitle'', Text (data_postTitle data)),
                   (''caption'', Text (data_caption data)),
                   (''hashtags'', Text (case data_hashtags data of None \<Rightarrow> [] | Some h \<Rightarrow> h)),
                   (''platforms'', Text (JSON_stringify (data_platforms data))),
                   (''scheduledDate'', Text stamp)] @ image_entries images)"
proof -
  from validated_date [OF assms] toISOString_defined
  obtain stamp where "toISOString (data_scheduledDate data) = Inr stamp"
    by blast
  then show ?thesis
    by (simp add: build_formData_def)
qed

lemma image_entries_nth:
  "image_entries images =
     map (\<lambda>i. (''image_'' @ show_nat i, Blob (images ! i))) [0..<length images]"
  by (rule nth_equalityI) (simp_all add: image_entries_def nth_enumerate_eq)

lemma defaults_fail:
  assumes "form st = defaultValues"
  shows "handleSubmit isUrl st r = (st\<lparr>errors := schema_errors isUrl defaultValues\<rparr>, [])"
    and "(''postTitle'', Message ''Post title is required'')
           \<in> set (schema_errors isUrl defaultValues)"
proof -
  show mem: "(''postTitle'', Message ''Post title is required'')
               \<in> set (schema_errors isUrl defaultValues)"
    by (rule schema_errors_mem(1))
       (simp add: field_error_def check_postTitle_def string_checks_def defaultValues_def)
  then have "schema_errors isUrl defaultValues \<noteq> []"
    by auto
  then show "handleSubmit isUrl st r = (st\<lparr>errors := schema_errors isUrl defaultValues\<rparr>, [])"
    using assms by (simp add: handleSubmit_def formSchema_Inl)
qed

text \<open>
  Claim C4. For a draft that passes validation, when the POST is answered with a status in
  200..299 the success notification is emitted, every form field is back at its initial
  empty value and the attachment sequence is empty; submitting the resulting draft again
  fails validation (the title is reported as required) and sends nothing.
\<close>

theorem handleSubmit_success_resets:
  assumes "formSchema isUrl (form st) = Inr data" and "200 \<le> status" and "status \<le> 299"
  shows "ShowToast submit_success_toast \<in> set (snd (handleSubmit isUrl st (Response status))) \<and>
         form (fst (handleSubmit isUrl st (Response status))) = form initial \<and>
         form (fst (handleSubmit isUrl st (Response status))) =
           \<lparr> postTitle = [], caption = Str [], hashtags = Str [], platforms = [],
             scheduledDate = None, webhookUrl = [] \<rparr> \<and>
         uploadedImages (fst (handleSubmit isUrl st (Response status))) = [] \<and>
         snd (handleSubmit isUrl (fst (handleSubmit isUrl st (Response status))) r) = [] \<and>
         (''postTitle'', Message ''Post title is required'')
           \<in> set (errors (fst (handleSubmit isUrl (fst (handleSubmit isUrl st (Response status))) r)))"
proof -
  from validated_build_formData [OF assms(1)]
  obtain formData where "build_formData data (uploadedImages st) = Inr formData"
    by blast
  then have run: "handleSubmit isUrl st (Response status) =
      (st\<lparr>errors := [], isSubmitting := False, form := defaultValues, uploadedImages := []\<rparr>,
       [Fetch (Request (data_webhookUrl data) ''POST'' [] (Multipart formData)),
        ShowToast submit_success_toast])"
    using assms
    by (simp add: handleSubmit_def onSubmit_def onSubmit_dispatch_def onSubmit_settle_success)
  have reset: "form (fst (handleSubmit isUrl st (Response status))) = defaultValues"
    by (simp add: run)
  show ?thesis
    using defaults_fail(1) [OF reset, of isUrl r] defaults_fail(2) [OF reset, of isUrl]
    by (simp add: run) (simp add: initial_def defaultValues_def)
qed

lemma handleSubmit_sample:
  "handleSubmit sample_isUrl (initial\<lparr>form := sample_draft, uploadedImages := [sample_image]\<rparr>)
     (Response 200)
   = (initial, [Fetch sample_request, ShowToast submit_success_toast])"
  by (simp add: handleSubmit_def formSchema_sample onSubmit_def onSubmit_dispatch_sample
        onSubmit_settle_success)
     (simp add: initial_def)

text \<open>
  The scenario of the specification: the sample draft with one image, answered with
  status 200. One request goes out, the success toast is shown, and the component is back
  in its initial state.
\<close>

theorem handleSubmit_success_resets_witness:
  "handleSubmit sample_isUrl (initial\<lparr>form := sample_draft, uploadedImages := [sample_image]\<rparr>)
     (Response 200)
     = (initial, [Fetch sample_request, ShowToast submit_success_toast]) \<and>
   snd (handleSubmit sample_isUrl initial (Response 200)) = [] \<and>
   (''postTitle'', Message ''Post title is required'')
     \<in> set (errors (fst (handleSubmit sample_isUrl initial (Response 200))))"
proof -
  have valid: "formSchema sample_isUrl
                 (form (initial\<lparr>form := sample_draft, uploadedImages := [sample_image]\<rparr>))
               = Inr sample_data"
    by (simp add: formSchema_sample)
  have lo: "(200::nat) \<le> 200" and hi: "(200::nat) \<le> 299"
    by simp_all
  from handleSubmit_success_resets [OF valid lo hi, of "Response 200"]
  show ?thesis
    by (simp add: handleSubmit_sample)
qed

lemma validated_fields:
  assumes "formSchema isUrl v = Inr data"
  shows "data_postTitle data = postTitle v"
    and "caption v = Str (data_caption data)"
    and "hashtags v = Undefined \<and> data_hashtags data = None \<or>
         (\<exists>h. hashtags v = Str h \<and> data_hashtags data = Some h)"
    and "data_platforms data = platforms v"
    and "scheduledDate v = Some (data_scheduledDate data)"
    and "data_webhookUrl data = webhookUrl v"
proof -
  from assms have none: "schema_errors isUrl v = []" and data: "data = schema_output v"
    by (simp_all add: formSchema_Inr)
  show "data_postTitle data = postTitle v" "data_platforms data = platforms v"
    "data_webhookUrl data = webhookUrl v"
    by (simp_all add: data schema_output_def)
  from none have "check_caption (caption v) = []"
    by (simp add: schema_errors_def field_error_Nil)
  then show "caption v = Str (data_caption data)"
    by (cases "caption v") (simp_all add: check_caption_def data schema_output_def)
  from none have "check_hashtags (hashtags v) = []"
    by (simp add: schema_errors_def field_error_Nil)
  then show "hashtags v = Undefined \<and> data_hashtags data = None \<or>
         (\<exists>h. hashtags v = Str h \<and> data_hashtags data = Some h)"
    by (cases "hashtags v") (simp_all add: check_hashtags_def data schema_output_def)
  from none have "check_scheduledDate (scheduledDate v) = []"
    by (simp add: schema_errors_def field_error_Nil)
  then show "scheduledDate v = Some (data_scheduledDate data)"
    by (cases "scheduledDate v") (simp_all add: check_scheduledDate_def data schema_output_def)
qed

lemma settle_no_fetch: "Fetch q \<notin> set (snd (onSubmit_settle st r))"
  by (cases r) (simp_all add: onSubmit_settle_def onSubmit_catch_def)

text \<open>
  Claim C5. For a draft that passes validation, with values \<open>data\<close>, submitting performs
  exactly one request: a POST to the webhook URL of the draft whose multipart body has, in
  this order, postTitle, caption, hashtags (the empty string when the field is absent),
  platforms, scheduledDate, and then image_0, ..., image_(n-1) carrying the n attachments
  in sequence order. The platforms field is JSON text that reads back as the array of
  the draft's platforms; the scheduledDate field is an ISO-8601 date-time string that
  reads back as the time value of the draft's date; the suffix of each image key is the
  decimal numeral of its position. Nothing else the handler does is a request.
\<close>

theorem handleSubmit_payload:
  assumes "formSchema isUrl (form st) = Inr data"
  shows "\<exists>stamp rest.
           toISOString (data_scheduledDate data) = Inr stamp \<and>
           snd (handleSubmit isUrl st r) =
             Fetch (Request (webhookUrl (form st)) ''POST'' []
               (Multipart
                 ([(''postTitle'', Text (data_postTitle data)),
                   (''caption'', Text (data_caption data)),
                   (''hashtags'', Text (case data_hashtags data of None \<Rightarrow> [] | Some h \<Rightarrow> h)),
                   (''platforms'', Text (JSON_stringify (data_platforms data))),
                   (''scheduledDate'', Text stamp)] @
                  map (\<lambda>i. (''image_'' @ show_nat i, Blob (uploadedImages st ! i)))
                    [0..<length (uploadedImages st)]))) # rest \<and>
           (\<forall>q. Fetch q \<notin> set rest) \<and>
           data_postTitle data = postTitle (form st) \<and>
           caption (form st) = Str (data_caption data) \<and>
           (hashtags (form st) = Undefined \<and> data_hashtags data = None \<or>
            (\<exists>h. hashtags (form st) = Str h \<and> data_hashtags data = Some h)) \<and>
           data_platforms data = platforms (form st) \<and>
           scheduledDate (form st) = Some (data_scheduledDate data) \<and>
           json_parse_strings (JSON_stringify (data_platforms data))
             = Some (platforms (form st)) \<and>
           (\<exists>t. time_value (data_scheduledDate data) = Some t \<and> parse_iso stamp = Some t) \<and>
           (\<forall>i < length (uploadedImages st). read_decimal (show_nat i) = Some i)"
proof -
  from validated_date [OF assms]
  obtain t where t: "time_value (data_scheduledDate data) = Some t"
    by blast
  from parse_iso_toISOString [OF t]
  obtain stamp where stamp: "toISOString (data_scheduledDate data) = Inr stamp"
    and reads: "parse_iso stamp = Some t"
    by blast
  let ?rest = "snd (onSubmit_settle (st\<lparr>errors := [], isSubmitting := True\<rparr>) r)"
  have "snd (handleSubmit isUrl st r) =
          Fetch (Request (data_webhookUrl data) ''POST'' []
            (Multipart
              ([(''postTitle'', Text (data_postTitle data)),
                (''caption'', Text (data_caption data)),
                (''hashtags'', Text (case data_hashtags data of None \<Rightarrow> [] | Some h \<Rightarrow> h)),
                (''platforms'', Text (JSON_stringify (data_platforms data))),
                (''scheduledDate'', Text stamp)] @ image_entries (uploadedImages st)))) # ?rest"
    using assms stamp
    by (simp add: handleSubmit_def onSubmit_def onSubmit_dispatch_def build_formData_def
          split: prod.splits)
  moreover have "\<forall>q. Fetch q \<notin> set ?rest"
    by (simp add: settle_no_fetch)
  moreover have "\<exists>t. time_value (data_scheduledDate data) = Some t \<and> parse_iso stamp = Some t"
    using t reads by blast
  ultimately show ?thesis
    using stamp validated_fields [OF assms]
    by (simp add: image_entries_nth json_parse_stringify show_nat_read)
qed

text \<open>
  The scenario again: the one request is the sample request, with \<open>image_0\<close>; its
  platforms text reads back as the one platform, its date string as the time value of
  the date, and the key suffix as 0.
\<close>

theorem handleSubmit_payload_witness:
  "snd (handleSubmit sample_isUrl
          (initial\<lparr>form := sample_draft, uploadedImages := [sample_image]\<rparr>) (Response 200))
     = [Fetch (Request ''https://example.com/hook'' ''POST'' []
         (Multipart
            [(''postTitle'', Text ''Launch''),
             (''caption'', Text ''We shipped!''),
             (''hashtags'', Text ''#launch''),
             (''platforms'', Text ([CHR ''['', CHR 0x22] @ ''facebook'' @ [CHR 0x22, CHR '']''])),
             (''scheduledDate'', Text ''2025-01-01T00:00:00.000Z''),
             (''image_0'', Blob sample_image)])),
        ShowToast submit_success_toast] \<and>
   json_parse_strings ([CHR ''['', CHR 0x22] @ ''facebook'' @ [CHR 0x22, CHR '']''])
     = Some [''facebook''] \<and>
   parse_iso ''2025-01-01T00:00:00.000Z'' = Some 1735689600000 \<and>
   read_decimal ''0'' = Some 0"
proof -
  let ?st = "initial\<lparr>form := sample_draft, uploadedImages := [sample_image]\<rparr>"
  have valid: "formSchema sample_isUrl (form ?st) = Inr sample_data"
    by (simp add: formSchema_sample)
  have zero: "show_nat 0 = ''0''"
    by (simp add: show_nat_digit digit_char_simps)
  have date: "data_scheduledDate sample_data = Date 1735689600000"
    and tv: "time_value (Date 1735689600000) = Some 1735689600000"
    and plat: "data_platforms sample_data = [''facebook'']"
      "platforms (form ?st) = [''facebook'']"
    by (simp_all add: sample_data_def sample_draft_def time_value_def)
  from handleSubmit_payload [OF valid, of "Response 200"]
  obtain stamp t where
    "toISOString (data_scheduledDate sample_data) = Inr stamp"
    "json_parse_strings (JSON_stringify (data_platforms sample_data))
       = Some (platforms (form ?st))"
    "time_value (data_scheduledDate sample_data) = Some t" "parse_iso stamp = Some t"
    "\<forall>i < length (uploadedImages ?st). read_decimal (show_nat i) = Some i"
    by blast
  then have "json_parse_strings ([CHR ''['', CHR 0x22] @ ''facebook'' @ [CHR 0x22, CHR '']''])
               = Some [''facebook'']"
    and "parse_iso ''2025-01-01T00:00:00.000Z'' = Some 1735689600000"
    and "read_decimal ''0'' = Some 0"
    unfolding date tv plat toISOString_2025 JSON_stringify_facebook
    using zero by auto
  then show ?thesis
    by (simp add: handleSubmit_sample sample_request_def)
qed

section \<open>Properties of the AI-assist dispatcher\<close>

lemma get_prop_defined:
  "data \<noteq> Null \<Longrightarrow> data \<noteq> Undefined \<Longrightarrow> \<exists>v. get_prop data k = Inr v"
  by (cases data) simp_all

lemma handleAIGenerate_fields:
  assumes "trim (aiPrompt st) \<noteq> []" and "200 \<le> status" and "status \<le> 299"
    and "get_prop data ''caption'' = Inr cap"
    and "get_prop data ''content'' = Inr content"
    and "get_prop data ''hashtags'' = Inr tags"
  shows "handleAIGenerate st (AiResponse status (Some data)) =
           (st\<lparr>form := (form st)
                   \<lparr>caption := (if truthy cap then cap
                                else if truthy content then content else Str []),
                    hashtags := (if truthy tags then tags else Str [])\<rparr>,
               showAIModal := False, aiPrompt := [], isGenerating := False\<rparr>,
            [Fetch (ai_request (aiPrompt st)), ShowToast ai_success_toast])"
  using assms
  by (simp add: handleAIGenerate_def ai_try_def response_ok_def js_or_def Let_def)

text \<open>
  Claim C6, as amended. For every response with a status in 200..299 whose body parses
  to a JSON value other than \<open>null\<close>, the generate operation (with a non-blank prompt)
  overwrites exactly the caption and hashtags fields: the caption becomes the response's
  \<open>caption\<close> when that value is truthy (for a string: non-empty), otherwise its
  \<open>content\<close> when that is truthy, otherwise the empty string; the hashtags become the
  response's \<open>hashtags\<close> when truthy, otherwise the empty string. Title, platforms,
  scheduled date and webhook URL are unchanged, the modal is closed, the prompt is
  cleared, and the only notification is the success one.
\<close>

theorem handleAIGenerate_success:
  assumes "trim (aiPrompt st) \<noteq> []" and "200 \<le> status" and "status \<le> 299"
    and "data \<noteq> Null" and "data \<noteq> Undefined"
  shows "\<exists>cap content tags.
           get_prop data ''caption'' = Inr cap \<and>
           get_prop data ''content'' = Inr content \<and>
           get_prop data ''hashtags'' = Inr tags \<and>
           handleAIGenerate st (AiResponse status (Some data)) =
             (st\<lparr>form := (form st)
                     \<lparr>caption := (if truthy cap then cap
                                  else if truthy content then content else Str []),
                      hashtags := (if truthy tags then tags else Str [])\<rparr>,
                 showAIModal := False, aiPrompt := [], isGenerating := False\<rparr>,
              [Fetch (ai_request (aiPrompt st)), ShowToast ai_success_toast]) \<and>
           postTitle (form (fst (handleAIGenerate st (AiResponse status (Some data)))))
             = postTitle (form st) \<and>
           platforms (form (fst (handleAIGenerate st (AiResponse status (Some data)))))
             = platforms (form st) \<and>
           scheduledDate (form (fst (handleAIGenerate st (AiResponse status (Some data)))))
             = scheduledDate (form st) \<and>
           webhookUrl (form (fst (handleAIGenerate st (AiResponse status (Some data)))))
             = webhookUrl (form st) \<and>
           \<not> showAIModal (fst (handleAIGenerate st (AiResponse status (Some data)))) \<and>
           aiPrompt (fst (handleAIGenerate st (AiResponse status (Some data)))) = []"
proof -
  from get_prop_defined [OF assms(4,5)]
  obtain cap content tags where
    "get_prop data ''caption'' = Inr cap" "get_prop data ''content'' = Inr content"
    "get_prop data ''hashtags'' = Inr tags"
    by metis
  with handleAIGenerate_fields [OF assms(1-3) this] show ?thesis
    by simp
qed

text \<open>
  A body that parses to \<open>null\<close>: reading \<open>data.caption\<close> throws, the catch block logs
  and notifies the failure, and the form, the modal and the prompt stay as they were.
\<close>

lemma handleAIGenerate_null_body:
  "trim (aiPrompt st) \<noteq> [] \<Longrightarrow> 200 \<le> status \<Longrightarrow> status \<le> 299 \<Longrightarrow>
   handleAIGenerate st (AiResponse status (Some Null)) =
     (st\<lparr>isGenerating := False\<rparr>,
      [Fetch (ai_request (aiPrompt st)), ConsoleError ''AI Generation error:'',
       ShowToast ai_failure_toast])"
  by (simp add: handleAIGenerate_def ai_try_def response_ok_def Let_def)

text \<open>
  A prompt of white space only, here a no-break space and a space: the handler returns
  at once with the prompt notification; no request is made and nothing is stored.
\<close>

lemma handleAIGenerate_blank_prompt:
  "handleAIGenerate (initial\<lparr>showAIModal := True, aiPrompt := [CHR 0xA0, CHR '' '']\<rparr>) r
   = (initial\<lparr>showAIModal := True, aiPrompt := [CHR 0xA0, CHR '' '']\<rparr>,
      [ShowToast prompt_required_toast])"
  by (simp add: handleAIGenerate_def trim_def is_space_def)

lemma trim_sample: "trim ''launch post'' \<noteq> []"
  by (simp add: trim_def is_space_def)

text \<open>
  A response with only a \<open>content\<close> field: it becomes the caption, the hashtags become
  the empty string, the modal closes and the prompt is cleared.
\<close>

theorem handleAIGenerate_success_witness:
  "handleAIGenerate (initial\<lparr>form := sample_draft, showAIModal := True, aiPrompt := ''launch post''\<rparr>)
     (AiResponse 200 (Some (Obj [(''content'', Str ''Big news'')])))
   = (initial\<lparr>form := sample_draft\<lparr>caption := Str ''Big news'', hashtags := Str []\<rparr>\<rparr>,
      [Fetch (ai_request ''launch post''), ShowToast ai_success_toast])"
proof -
  have prompt: "trim (aiPrompt (initial\<lparr>form := sample_draft, showAIModal := True,
                  aiPrompt := ''launch post''\<rparr>)) \<noteq> []"
    by (simp add: trim_sample)
  have lo: "(200::nat) \<le> 200" and hi: "(200::nat) \<le> 299"
    and obj: "Obj [(''content'', Str ''Big news'')] \<noteq> Null"
             "Obj [(''content'', Str ''Big news'')] \<noteq> Undefined"
    by simp_all
  from handleAIGenerate_success [OF prompt lo hi obj] show ?thesis
    by (auto simp: initial_def)
qed

text \<open>
  Claim C6 as stated fails: the response below has the \<open>caption\<close> key, with the empty
  string as its value, and a \<open>content\<close> key; the caption field does not receive the value
  under \<open>caption\<close> but the one under \<open>content\<close>.
\<close>

theorem caption_key_present_counterexample:
  "map_of [(''caption'', Str []), (''content'', Str ''Big news''), (''hashtags'', Str ''#new'')]
     ''caption'' = Some (Str []) \<and>
   caption (form (fst (handleAIGenerate
     (initial\<lparr>form := sample_draft, showAIModal := True, aiPrompt := ''launch post''\<rparr>)
     (AiResponse 200 (Some (Obj [(''caption'', Str []), (''content'', Str ''Big news''),
                                  (''hashtags'', Str ''#new'')]))))))
     = Str ''Big news''"
  by (simp add: handleAIGenerate_def ai_try_def response_ok_def js_or_def Let_def trim_sample)

lemma caption_too_long_error:
  assumes "caption v = Str s" and "length s > 2200"
  shows "(''caption'', Message ''Caption must be under 2200 characters'')
           \<in> set (schema_errors isUrl v)"
proof -
  from assms have "check_caption (caption v) = [Message ''Caption must be under 2200 characters'']"
    by (auto simp: check_caption_def string_checks_def)
  then show ?thesis
    by (intro schema_errors_mem(2)) (simp add: field_error_def)
qed

text \<open>
  Claim C10. The generate operation stores the response text without applying any
  validation rule: when the response (status in 200..299, non-blank prompt) carries a
  caption string of more than 2200 characters, that string becomes the caption of the
  draft, the stored errors are exactly those from before, and the only notification is
  the success one, so the draft now violates the caption bound unnoticed. The next
  submit detects it: it reports the caption as too long, sends nothing, and leaves the
  draft as it is.
\<close>

theorem ai_caption_bypasses_validation:
  assumes "trim (aiPrompt st) \<noteq> []" and "200 \<le> status" and "status \<le> 299"
    and "get_prop data ''caption'' = Inr (Str s)" and "length s > 2200"
  shows "caption (form (fst (handleAIGenerate st (AiResponse status (Some data))))) = Str s \<and>
         errors (fst (handleAIGenerate st (AiResponse status (Some data)))) = errors st \<and>
         snd (handleAIGenerate st (AiResponse status (Some data)))
           = [Fetch (ai_request (aiPrompt st)), ShowToast ai_success_toast] \<and>
         violated isUrl caption_at_most_2200
           (form (fst (handleAIGenerate st (AiResponse status (Some data))))) \<and>
         snd (handleSubmit isUrl (fst (handleAIGenerate st (AiResponse status (Some data)))) r)
           = [] \<and>
         (''caption'', Message ''Caption must be under 2200 characters'')
           \<in> set (errors (fst (handleSubmit isUrl
                 (fst (handleAIGenerate st (AiResponse status (Some data)))) r))) \<and>
         form (fst (handleSubmit isUrl
                 (fst (handleAIGenerate st (AiResponse status (Some data)))) r))
           = form (fst (handleAIGenerate st (AiResponse status (Some data))))"
proof -
  let ?st' = "fst (handleAIGenerate st (AiResponse status (Some data)))"
  from assms(4) have "data \<noteq> Null" "data \<noteq> Undefined"
    by auto
  then obtain content tags where
    "get_prop data ''content'' = Inr content" "get_prop data ''hashtags'' = Inr tags"
    using get_prop_defined by metis
  from handleAIGenerate_fields [OF assms(1-4) this] assms(5)
  have gen: "handleAIGenerate st (AiResponse status (Some data)) =
      (st\<lparr>form := (form st)\<lparr>caption := Str s,
                              hashtags := (if truthy tags then tags else Str [])\<rparr>,
          showAIModal := False, aiPrompt := [], isGenerating := False\<rparr>,
       [Fetch (ai_request (aiPrompt st)), ShowToast ai_success_toast])"
    by auto
  then have cap: "caption (form ?st') = Str s"
    by simp
  from caption_too_long_error [OF cap assms(5)]
  have mem: "(''caption'', Message ''Caption must be under 2200 characters'')
               \<in> set (schema_errors isUrl (form ?st'))" .
  then have "schema_errors isUrl (form ?st') \<noteq> []"
    by auto
  then have "handleSubmit isUrl ?st' r = (?st'\<lparr>errors := schema_errors isUrl (form ?st')\<rparr>, [])"
    by (simp add: handleSubmit_def formSchema_Inl)
  with mem cap assms(5) show ?thesis
    by (simp add: gen)
qed

text \<open>A response whose caption has 2201 characters.\<close>

theorem ai_caption_bypasses_validation_witness:
  "caption (form (fst (handleAIGenerate
       (initial\<lparr>form := sample_draft, showAIModal := True, aiPrompt := ''launch post''\<rparr>)
       (AiResponse 200 (Some (Obj [(''caption'', Str (replicate 2201 CHR ''a''))]))))))
     = Str (replicate 2201 CHR ''a'') \<and>
   errors (fst (handleAIGenerate
       (initial\<lparr>form := sample_draft, showAIModal := True, aiPrompt := ''launch post''\<rparr>)
       (AiResponse 200 (Some (Obj [(''caption'', Str (replicate 2201 CHR ''a''))])))))
     = [] \<and>
   snd (handleSubmit sample_isUrl (fst (handleAIGenerate
       (initial\<lparr>form := sample_draft, showAIModal := True, aiPrompt := ''launch post''\<rparr>)
       (AiResponse 200 (Some (Obj [(''caption'', Str (replicate 2201 CHR ''a''))])))))
       (Response 200)) = [] \<and>
   (''caption'', Message ''Caption must be under 2200 characters'')
     \<in> set (errors (fst (handleSubmit sample_isUrl (fst (handleAIGenerate
       (initial\<lparr>form := sample_draft, showAIModal := True, aiPrompt := ''launch post''\<rparr>)
       (AiResponse 200 (Some (Obj [(''caption'', Str (replicate 2201 CHR ''a''))])))))
       (Response 200))))"
proof -
  have prompt: "trim (aiPrompt (initial\<lparr>form := sample_draft, showAIModal := True,
                  aiPrompt := ''launch post''\<rparr>)) \<noteq> []"
    by (simp add: trim_sample)
  have lo: "(200::nat) \<le> 200" and hi: "(200::nat) \<le> 299"
    by simp_all
  have cap: "get_prop (Obj [(''caption'', Str (replicate 2201 CHR ''a''))]) ''caption''
               = Inr (Str (replicate 2201 CHR ''a''))"
    by simp
  have long: "length (replicate 2201 CHR ''a'') > 2200"
    by simp
  from ai_caption_bypasses_validation [OF prompt lo hi cap long, of sample_isUrl "Response 200"]
  show ?thesis
    by (simp add: initial_def)
qed

end
